theory Spec2Isabelle
  imports Complex_Main
begin

section \<open>Errors\<close>

text \<open>
  Go error values, as far as the client builds or inspects them.  \<open>Errno\<close> is
  \<^verbatim>\<open>syscall.Errno\<close>; \<open>OpError\<close> stands for the wrappers the net package puts around
  a system error (\<^verbatim>\<open>*net.OpError\<close>, \<^verbatim>\<open>*os.SyscallError\<close>): a label and the wrapped
  error; \<open>NumError\<close> is \<^verbatim>\<open>*strconv.NumError\<close> (function, input, cause); \<open>ErrOther\<close>
  is any other error value without a wrapped cause, named by its text.

  \<open>Errorf fmt ops\<close> is the value of \<^verbatim>\<open>fmt.Errorf(fmt, ops...)\<close>, kept unformatted: the
  format string of the source and its operands in order.  An operand is a string
  (\<open>Str\<close>), the text \<^verbatim>\<open>err.Error()\<close> of an error (\<open>ErrorText\<close>), or the error
  consumed by the verb \<^verbatim>\<open>%w\<close> (\<open>Wrapped\<close>), which is what \<^verbatim>\<open>Unwrap\<close> returns.
\<close>

text \<open>
  Modelled from the spec: \<^verbatim>\<open>NewError\<close> and \<^verbatim>\<open>NewInvalidResponseError\<close>, the
  constructors of the package's own error types, whose declarations are not part of the
  sources at hand.  The spec describes the first as ``a structured protocol error
  carrying the numeric code and the message'' and the second as an invalid-response
  error ``surfaced per-key with the offending line for diagnosis''.  Each is a
  constructor of \<open>error\<close> holding the arguments of the call.
\<close>

datatype error =
    Errno nat
  | ErrUnexpectedEOF
  | ErrSyntax
  | ErrRange
  | ErrOther string
  | OpError string error
  | NumError string string error
  | NewError int string
  | NewInvalidResponseError string string
  | Errorf string "operand list"
and operand =
    Str string
  | ErrorText error
  | Wrapped error

text \<open>Linux values of \<^verbatim>\<open>syscall.EPIPE\<close> and \<^verbatim>\<open>syscall.ECONNRESET\<close>.\<close>

definition EPIPE :: error where
  "EPIPE = Errno 32"

definition ECONNRESET :: error where
  "ECONNRESET = Errno 104"

fun first_wrapped :: "operand list \<Rightarrow> error option" where
  "first_wrapped [] = None"
| "first_wrapped (Wrapped e # ops) = Some e"
| "first_wrapped (Str s # ops) = first_wrapped ops"
| "first_wrapped (ErrorText e # ops) = first_wrapped ops"

text \<open>\<^verbatim>\<open>errors.Unwrap\<close>.\<close>

fun Unwrap :: "error \<Rightarrow> error option" where
  "Unwrap (OpError s e) = Some e"
| "Unwrap (NumError f n e) = Some e"
| "Unwrap (Errorf f ops) = first_wrapped ops"
| "Unwrap e = None"

text \<open>
  \<^verbatim>\<open>errors.Is(err, target)\<close>: \<open>err\<close> or an error on its \<^verbatim>\<open>Unwrap\<close> chain equals
  \<open>target\<close>.
\<close>

function errors_Is :: "error \<Rightarrow> error \<Rightarrow> bool" where
  "errors_Is err target =
     (err = target \<or> (case Unwrap err of None \<Rightarrow> False | Some e \<Rightarrow> errors_Is e target))"
  by pat_completeness auto
termination
proof (relation "measure (\<lambda>(err, target). size err)")
  fix err target :: error and e :: error
  assume u: "Unwrap err = Some e"
  have w: "first_wrapped ops = Some e \<Longrightarrow> size e < size_list size ops" for ops
    by (induction ops rule: first_wrapped.induct) auto
  from u have "size e < size err"
    by (cases err) (auto dest: w)
  then show "((e, target), (err, target)) \<in> measure (\<lambda>(err, target). size err)"
    by simp
qed simp

declare errors_Is.simps [simp del]

text \<open>
  A Go call returns, or panics, or the runtime stops the program with a fatal error
  (\<open>Aborts\<close>).
\<close>

datatype 'a outcome = Returns 'a | Panics | Aborts


section \<open>The connection\<close>

text \<open>
  A \<^verbatim>\<open>net.Conn\<close>: what its methods will answer, and what has been called on it.
  \<open>deadline_res k\<close> and \<open>write_res k\<close> are the errors of the \<open>k\<close>-th call of
  \<^verbatim>\<open>SetDeadline\<close> and \<^verbatim>\<open>Write\<close> (\<open>None\<close> is Go's \<^verbatim>\<open>nil\<close>), \<open>close_res\<close> that of
  \<^verbatim>\<open>Close\<close>.  \<open>incoming\<close> holds the bytes the peer sends until reading ends, with
  \<open>read_err\<close> the error that ends it (\<open>None\<close> for a clean end of stream).  \<open>calls\<close>
  records every method call in order.  Points in time are not modelled: a deadline
  refresh is only the call and its answer.
\<close>

datatype call = SetDeadline_call | Write_call string | Close_call

record conn =
  deadline_res :: "nat \<Rightarrow> error option"
  write_res :: "nat \<Rightarrow> error option"
  close_res :: "error option"
  incoming :: string
  read_err :: "error option"
  deadlines :: nat
  writes :: nat
  calls :: "call list"

definition conn_SetDeadline :: "conn \<Rightarrow> error option \<times> conn" where
  "conn_SetDeadline cn =
     (deadline_res cn (deadlines cn),
      cn\<lparr>deadlines := Suc (deadlines cn), calls := calls cn @ [SetDeadline_call]\<rparr>)"

definition conn_Write :: "conn \<Rightarrow> string \<Rightarrow> error option \<times> conn" where
  "conn_Write cn b =
     (write_res cn (writes cn),
      cn\<lparr>writes := Suc (writes cn), calls := calls cn @ [Write_call b]\<rparr>)"

definition conn_Close :: "conn \<Rightarrow> error option \<times> conn" where
  "conn_Close cn = (close_res cn, cn\<lparr>calls := calls cn @ [Close_call]\<rparr>)"

section \<open>The line scanner\<close>

text \<open>
  A \<^verbatim>\<open>bufio.Scanner\<close> with the split function \<^verbatim>\<open>bufio.ScanLines\<close>: \<open>pending\<close> are
  the tokens the next calls of \<^verbatim>\<open>Scan\<close> deliver, \<open>sticky\<close> is what \<^verbatim>\<open>Err\<close> answers once
  \<^verbatim>\<open>Scan\<close> has returned false (\<open>None\<close> after a clean end of stream), \<open>token\<close> is
  what \<^verbatim>\<open>Text\<close> answers.
\<close>

record Scanner =
  pending :: "string list"
  sticky :: "error option"
  token :: string

definition Scan :: "Scanner \<Rightarrow> bool \<times> Scanner" where
  "Scan s =
     (case pending s of
        [] \<Rightarrow> (False, s\<lparr>token := []\<rparr>)
      | l # ls \<Rightarrow> (True, s\<lparr>pending := ls, token := l\<rparr>))"

definition Text :: "Scanner \<Rightarrow> string" where
  "Text s = token s"

definition Err :: "Scanner \<Rightarrow> error option" where
  "Err s = sticky s"

text \<open>
  The tokens of \<^verbatim>\<open>bufio.ScanLines\<close> over a whole input: the input is cut at every
  newline, a last piece without newline is a token when it is not empty, and one
  trailing carriage return is dropped from each token.
\<close>

definition dropCR :: "string \<Rightarrow> string" where
  "dropCR d = (if d \<noteq> [] \<and> last d = CHR 0x0D then butlast d else d)"

function raw_lines :: "string \<Rightarrow> string list" where
  "raw_lines d =
     (if d = [] then []
      else if CHR 0x0A \<in> set d
        then takeWhile (\<lambda>c. c \<noteq> CHR 0x0A) d # raw_lines (tl (dropWhile (\<lambda>c. c \<noteq> CHR 0x0A) d))
        else [d])"
  by pat_completeness auto
termination
proof (relation "measure length")
  fix d :: string
  assume "d \<noteq> []" and "CHR 0x0A \<in> set d"
  then have "dropWhile (\<lambda>c. c \<noteq> CHR 0x0A) d \<noteq> []"
    by (simp add: dropWhile_eq_Nil_conv)
  moreover have "length (dropWhile (\<lambda>c. c \<noteq> CHR 0x0A) d) \<le> length d"
    by (rule length_dropWhile_le)
  ultimately show "(tl (dropWhile (\<lambda>c. c \<noteq> CHR 0x0A) d), d) \<in> measure length"
    by (cases "dropWhile (\<lambda>c. c \<noteq> CHR 0x0A) d") auto
qed simp

declare raw_lines.simps [simp del]

text \<open>
  \<^verbatim>\<open>bufio.NewScanner(bufio.NewReader(conn))\<close> with \<^verbatim>\<open>Split(bufio.ScanLines)\<close>.  A line
  that does not fit the scanner's buffer of 65536 bytes (the line and its newline) ends
  the scan with \<^verbatim>\<open>bufio.ErrTooLong\<close>.
\<close>

definition maxTokenSize :: nat where
  "maxTokenSize = 65536"

definition ErrTooLong :: error where
  "ErrTooLong = ErrOther ''bufio.Scanner: token too long''"

definition NewScanner :: "conn \<Rightarrow> Scanner" where
  "NewScanner cn =
     (let ls = raw_lines (incoming cn);
          fit = takeWhile (\<lambda>l. length l < maxTokenSize) ls
      in \<lparr>pending = map dropCR fit,
          sticky = (if length fit < length ls then Some ErrTooLong else read_err cn),
          token = []\<rparr>)"

section \<open>The client\<close>

text \<open>
  The struct \<^verbatim>\<open>Client\<close>.  \<open>conn\<close> is \<open>None\<close> for Go's \<^verbatim>\<open>nil\<close>; the mutex is left
  out, one call runs at a time.
\<close>

record Client =
  conn :: "conn option"
  addr :: string
  network :: string
  timeout :: int
  scanner :: Scanner

text \<open>\<^verbatim>\<open>Client.setDeadline\<close>: a method call on a \<^verbatim>\<open>nil\<close> connection panics.\<close>

definition setDeadline :: "Client \<Rightarrow> (error option \<times> Client) outcome" where
  "setDeadline c =
     (case conn c of
        None \<Rightarrow> Panics
      | Some cn \<Rightarrow>
          (case conn_SetDeadline cn of (err, cn') \<Rightarrow> Returns (err, c\<lparr>conn := Some cn'\<rparr>)))"

text \<open>\<^verbatim>\<open>Client.Close\<close>.\<close>

definition Close :: "Client \<Rightarrow> (error option \<times> Client) outcome" where
  "Close c =
     (case setDeadline c of
        Panics \<Rightarrow> Panics
      | Aborts \<Rightarrow> Aborts
      | Returns (errD, c1) \<Rightarrow>
          (case conn c1 of
             None \<Rightarrow> Panics
           | Some cn1 \<Rightarrow>
               (case conn_Write cn1 ''quit'' of (errW, cn2) \<Rightarrow>
                 (case conn_Close cn2 of (err, cn3) \<Rightarrow>
                    Returns (if err \<noteq> None then err
                             else if errD \<noteq> None then errD
                             else errW,
                             c1\<lparr>conn := Some cn3\<rparr>)))))"


section \<open>Commands\<close>

text \<open>
  Modelled from the spec: the type \<^verbatim>\<open>Cmd\<close> with \<^verbatim>\<open>NewCmd\<close>, \<^verbatim>\<open>WithArgs\<close> and
  \<^verbatim>\<open>String\<close> is declared in a file that is not part of the sources at hand.  The spec:
  a command is a verb and an ordered list of arguments, and its wire line is ``the
  verb, a single space, the arguments joined by single spaces, terminated by a
  newline''.
\<close>

record Cmd =
  verb :: string
  args :: "string list"

definition NewCmd :: "string \<Rightarrow> Cmd" where
  "NewCmd v = \<lparr>verb = v, args = []\<rparr>"

definition WithArgs :: "Cmd \<Rightarrow> string list \<Rightarrow> Cmd" where
  "WithArgs cmd as = cmd\<lparr>args := args cmd @ as\<rparr>"

fun Join :: "string list \<Rightarrow> string \<Rightarrow> string" where
  "Join [] sep = []"
| "Join [a] sep = a"
| "Join (a # b # as) sep = a @ sep @ Join (b # as) sep"

definition Cmd_String :: "Cmd \<Rightarrow> string" where
  "Cmd_String cmd = verb cmd @ '' '' @ Join (args cmd) '' '' @ [CHR 0x0A]"

section \<open>Dialling\<close>

text \<open>
  What surrounds the client.  The network it dials into: \<open>dial_res net addr k\<close> is the
  answer of the \<open>k\<close>-th call of \<^verbatim>\<open>net.DialTimeout\<close>, an error or a fresh connection;
  \<open>dials\<close> counts the calls made.  The memory of the process: \<open>mem\<close> is the number of
  bytes the runtime can obtain for one large object.
\<close>

record world =
  dial_res :: "string \<Rightarrow> string \<Rightarrow> nat \<Rightarrow> error + conn"
  dials :: nat
  mem :: nat

definition DialTimeout :: "world \<Rightarrow> string \<Rightarrow> string \<Rightarrow> int \<Rightarrow> (error + conn) \<times> world" where
  "DialTimeout w net a t = (dial_res w net a (dials w), w\<lparr>dials := Suc (dials w)\<rparr>)"

text \<open>
  \<^verbatim>\<open>Client.initConnection\<close>.  The source assigns both results of the dial, so a
  failed dial leaves \<^verbatim>\<open>c.conn\<close> \<^verbatim>\<open>nil\<close> and the old scanner in place.
\<close>

definition initConnection :: "world \<times> Client \<Rightarrow> error option \<times> world \<times> Client" where
  "initConnection s =
     (case s of (w, c) \<Rightarrow>
       (case DialTimeout w (network c) (addr c) (timeout c) of
          (Inl err, w') \<Rightarrow>
            (Some (Errorf ''failed to dial: %w'' [Wrapped err]), w', c\<lparr>conn := None\<rparr>)
        | (Inr cn, w') \<Rightarrow>
            (None, w', c\<lparr>conn := Some cn, scanner := NewScanner cn\<rparr>)))"

section \<open>The status line\<close>

text \<open>The classes \<^verbatim>\<open>\d\<close> and \<^verbatim>\<open>\s\<close> of Go's regexp syntax: ASCII only.\<close>

definition isDigit :: "char \<Rightarrow> bool" where
  "isDigit c = (c \<in> set ''0123456789'')"

definition isSpace :: "char \<Rightarrow> bool" where
  "isSpace c = (c \<in> {CHR 0x09, CHR 0x0A, CHR 0x0C, CHR 0x0D, CHR '' ''})"

text \<open>
  \<^verbatim>\<open>respRe.FindStringSubmatch\<close> for \<^verbatim>\<open>respRe = ^(-?\d+)\s+(.*)$\<close>: the empty list for
  Go's \<^verbatim>\<open>nil\<close> (no match), otherwise the whole match and the two groups.  The
  expression is anchored at both ends and has one way to match: the sign if there is
  one, the longest run of digits (what follows a shorter run is a digit, not a
  space), the longest run of spaces (greedy, and the rest may be anything), and the
  rest, which \<^verbatim>\<open>.\<close> matches when it holds no newline.
\<close>

definition respRe_FindStringSubmatch :: "string \<Rightarrow> string list" where
  "respRe_FindStringSubmatch l =
     (let sign = (if l \<noteq> [] \<and> hd l = CHR ''-'' then ''-'' else []);
          r0 = drop (length sign) l;
          ds = takeWhile isDigit r0;
          r1 = dropWhile isDigit r0;
          ws = takeWhile isSpace r1;
          rest = dropWhile isSpace r1
      in if ds \<noteq> [] \<and> ws \<noteq> [] \<and> CHR 0x0A \<notin> set rest then [l, sign @ ds, rest] else [])"

text \<open>
  \<^verbatim>\<open>strconv.ParseInt(s, 10, 64)\<close>, and \<^verbatim>\<open>strconv.Atoi\<close> where \<^verbatim>\<open>int\<close> has 64 bits: an
  optional sign and decimal digits, with a range error outside \<open>-2^63 .. 2^63 - 1\<close>.
  \<open>fn\<close> is the function name the error reports.
\<close>

definition digit_val :: "char \<Rightarrow> int" where
  "digit_val c = int (of_char c) - 48"

definition decimal :: "string \<Rightarrow> int" where
  "decimal ds = foldl (\<lambda>a c. 10 * a + digit_val c) 0 ds"

definition parse_int64 :: "string \<Rightarrow> string \<Rightarrow> error + int" where
  "parse_int64 fn s =
     (let neg = (s \<noteq> [] \<and> hd s = CHR ''-'');
          ds = (if s \<noteq> [] \<and> (hd s = CHR ''-'' \<or> hd s = CHR ''+'') then tl s else s)
      in if ds = [] \<or> \<not> list_all isDigit ds then Inl (NumError fn s ErrSyntax)
         else let v = (if neg then - decimal ds else decimal ds)
              in if v < - (2 ^ 63) \<or> 2 ^ 63 \<le> v then Inl (NumError fn s ErrRange)
                 else Inr v)"

definition Atoi :: "string \<Rightarrow> error + int" where
  "Atoi s = parse_int64 ''Atoi'' s"

definition ParseInt :: "string \<Rightarrow> error + int" where
  "ParseInt s = parse_int64 ''ParseInt'' s"


section \<open>Executing a command\<close>

text \<open>
  \<^verbatim>\<open>make([]string, 0, cap)\<close>, which the compiler turns into \<^verbatim>\<open>runtime.makeslice\<close>.  A
  string header takes 16 bytes.  A negative capacity, or one whose bytes exceed
  \<^verbatim>\<open>maxAlloc\<close> (\<open>2^48\<close> on 64-bit Linux), panics with
  \<^verbatim>\<open>makeslice: cap out of range\<close>.  Below that, an object of more than \<^verbatim>\<open>maxSmallSize\<close>
  bytes (32 KiB, the largest size class of the allocator) is obtained on its own, and
  the runtime stops with \<^verbatim>\<open>fatal error: out of memory\<close> when the bytes are not to
  be had.  Smaller objects are taken to be available, as for every other allocation of
  the program (strings, error values, the scanner's buffer), none of which is modelled.
\<close>

definition stringSize :: nat where
  "stringSize = 16"

definition maxAlloc :: nat where
  "maxAlloc = 2 ^ 48"

definition maxSmallSize :: nat where
  "maxSmallSize = 32768"

definition makeslice :: "world \<Rightarrow> int \<Rightarrow> string list outcome" where
  "makeslice w cap =
     (if cap < 0 \<or> int maxAlloc < int stringSize * cap then Panics
      else if int maxSmallSize < int stringSize * cap \<and> int (mem w) < int stringSize * cap
        then Aborts
      else Returns [])"

text \<open>\<^verbatim>\<open>Client.scanErr\<close>.\<close>

definition scanErr :: "Client \<Rightarrow> error" where
  "scanErr c = (case Err (scanner c) of Some err \<Rightarrow> err | None \<Rightarrow> ErrUnexpectedEOF)"

text \<open>
  The write loop of \<^verbatim>\<open>ExecCmd\<close> (\<^verbatim>\<open>for { ... }\<close> around \<^verbatim>\<open>c.conn.Write\<close>).  It goes
  round again after every broken-pipe or connection-reset failure that is followed by
  a successful dial, and nothing bounds the number of rounds: \<open>None\<close> is the loop that
  never ends.  The result is the error \<^verbatim>\<open>ExecCmd\<close> returns from inside the loop, or
  \<open>None\<close> when the loop is left by \<^verbatim>\<open>break\<close>.
\<close>

partial_function (option) write_loop ::
  "world \<times> Client \<Rightarrow> string \<Rightarrow> (error option \<times> world \<times> Client) outcome option" where
  "write_loop s b =
     (case s of (w, c) \<Rightarrow>
       (case conn c of
          None \<Rightarrow> Some Panics
        | Some cn \<Rightarrow>
            (case conn_Write cn b of
               (None, cn') \<Rightarrow> Some (Returns (None, w, c\<lparr>conn := Some cn'\<rparr>))
             | (Some err, cn') \<Rightarrow>
                 (if errors_Is err EPIPE \<or> errors_Is err ECONNRESET
                  then (case initConnection (w, c\<lparr>conn := Some cn'\<rparr>) of
                          (Some err2, s2) \<Rightarrow>
                            Some (Returns
                              (Some (Errorf ''failed to write (%s) and failed to reestablish: %w''
                                       [ErrorText err, Wrapped err2]), s2))
                        | (None, s2) \<Rightarrow> write_loop s2 b)
                  else Some (Returns
                         (Some (Errorf ''failed to write: %w'' [Wrapped err]),
                          w, c\<lparr>conn := Some cn'\<rparr>))))))"

declare write_loop.simps [code]

text \<open>
  The read loop of \<^verbatim>\<open>ExecCmd\<close>
  (\<^verbatim>\<open>for len(lines) < cnt && c.scanner.Scan() { ... }\<close>) with the check that
  follows it.
\<close>

function read_lines ::
  "Client \<Rightarrow> int \<Rightarrow> string list \<Rightarrow> ((error + string list) \<times> Client) outcome" where
  "read_lines c cnt lines =
     (if int (length lines) < cnt
      then (case Scan (scanner c) of
              (True, sc) \<Rightarrow>
                (case setDeadline (c\<lparr>scanner := sc\<rparr>) of
                   Panics \<Rightarrow> Panics
                 | Aborts \<Rightarrow> Aborts
                 | Returns (Some err, c') \<Rightarrow> Returns (Inl err, c')
                 | Returns (None, c') \<Rightarrow> read_lines c' cnt (lines @ [Text sc]))
            | (False, sc) \<Rightarrow>
                (if int (length lines) \<noteq> cnt
                 then Returns (Inl (scanErr (c\<lparr>scanner := sc\<rparr>)), c\<lparr>scanner := sc\<rparr>)
                 else Returns (Inr lines, c\<lparr>scanner := sc\<rparr>)))
      else (if int (length lines) \<noteq> cnt
            then Returns (Inl (scanErr c), c)
            else Returns (Inr lines, c)))"
  by pat_completeness auto
termination
  by (relation "measure (\<lambda>(c, cnt, lines). nat (cnt - int (length lines)))") auto

declare read_lines.simps [simp del]

text \<open>
  \<^verbatim>\<open>ExecCmd\<close> from the second deadline refresh on: the status line, the switch on
  the count, the slice for the content lines, the content lines.
\<close>

definition read_reply :: "world \<Rightarrow> Client \<Rightarrow> ((error + string list) \<times> Client) outcome" where
  "read_reply w c =
     (case setDeadline c of
        Panics \<Rightarrow> Panics
      | Aborts \<Rightarrow> Aborts
      | Returns (Some err, c1) \<Rightarrow> Returns (Inl err, c1)
      | Returns (None, c1) \<Rightarrow>
          (case Scan (scanner c1) of
             (False, sc) \<Rightarrow>
               Returns (Inl (Errorf ''scan error: %w'' [Wrapped (scanErr (c1\<lparr>scanner := sc\<rparr>))]),
                        c1\<lparr>scanner := sc\<rparr>)
           | (True, sc) \<Rightarrow>
               (let c2 = c1\<lparr>scanner := sc\<rparr>;
                    l = Text sc;
                    matches = respRe_FindStringSubmatch l
                in if length matches \<noteq> 3
                   then Returns (Inl (Errorf (''not 3 matches: '%s'' @ [CHR 0x27]) [Str l]), c2)
                   else (case Atoi (matches ! 1) of
                           Inl err \<Rightarrow>
                             Returns (Inl (Errorf ''failed to convert to int '%s': %w''
                                             [Str (matches ! 1), Wrapped err]), c2)
                         | Inr cnt \<Rightarrow>
                             (if cnt < 0 then Returns (Inl (NewError cnt (matches ! 2)), c2)
                              else if cnt = 0 then Returns (Inr [matches ! 2], c2)
                              else (case setDeadline c2 of
                                      Panics \<Rightarrow> Panics
                                    | Aborts \<Rightarrow> Aborts
                                    | Returns (Some err, c3) \<Rightarrow> Returns (Inl err, c3)
                                    | Returns (None, c3) \<Rightarrow>
                                        (case makeslice w cnt of
                                           Panics \<Rightarrow> Panics
                                         | Aborts \<Rightarrow> Aborts
                                         | Returns lines \<Rightarrow> read_lines c3 cnt lines)))))))"

text \<open>
  \<^verbatim>\<open>Client.ExecCmd\<close>.  The result is \<open>None\<close> when the write loop never ends.  The
  two \<^verbatim>\<open>fmt.Printf\<close> calls write to standard output only and are left out.
\<close>

definition ExecCmd ::
  "world \<times> Client \<Rightarrow> Cmd \<Rightarrow> ((error + string list) \<times> world \<times> Client) outcome option" where
  "ExecCmd s cmd =
     (case s of (w, c) \<Rightarrow>
       (case setDeadline c of
          Panics \<Rightarrow> Some Panics
        | Aborts \<Rightarrow> Some Aborts
        | Returns (Some err, c1) \<Rightarrow> Some (Returns (Inl err, w, c1))
        | Returns (None, c1) \<Rightarrow>
            (case write_loop (w, c1) (Cmd_String cmd) of
               None \<Rightarrow> None
             | Some Panics \<Rightarrow> Some Panics
             | Some Aborts \<Rightarrow> Some Aborts
             | Some (Returns (Some err, s2)) \<Rightarrow> Some (Returns (Inl err, s2))
             | Some (Returns (None, w2, c2)) \<Rightarrow>
                 (case read_reply w2 c2 of
                    Panics \<Rightarrow> Some Panics
                  | Aborts \<Rightarrow> Some Aborts
                  | Returns (r, c3) \<Rightarrow> Some (Returns (r, w2, c3))))))"

section \<open>The info command\<close>

text \<open>
  The value of an \<^verbatim>\<open>Info\<close> entry, an \<^verbatim>\<open>interface{}\<close> holding a \<^verbatim>\<open>string\<close>, an
  \<^verbatim>\<open>int64\<close> or a \<^verbatim>\<open>float64\<close>.  Floating-point numbers are a type parameter \<open>'f\<close>, and
  \<^verbatim>\<open>strconv.ParseFloat(s, 64)\<close> is a parameter \<open>pf\<close> of the functions below.
\<close>

datatype 'f val = VString string | VInt64 int | VFloat64 'f

record 'f Info =
  Key :: string
  Value :: "'f val"

text \<open>\<^verbatim>\<open>strings.SplitN(s, sep, n)\<close> for a separator of one byte.\<close>

fun SplitN :: "string \<Rightarrow> char \<Rightarrow> nat \<Rightarrow> string list" where
  "SplitN s sep 0 = []"
| "SplitN s sep (Suc 0) = [s]"
| "SplitN s sep (Suc (Suc n)) =
     (if sep \<in> set s
      then takeWhile (\<lambda>c. c \<noteq> sep) s # SplitN (tl (dropWhile (\<lambda>c. c \<noteq> sep) s)) sep (Suc n)
      else [s])"

text \<open>
  \<^verbatim>\<open>fmt.Sprintf\<close> for a format whose only verb is \<^verbatim>\<open>%v\<close>, with string operands:
  each verb is replaced by the next operand.
\<close>

fun Sprintf :: "string \<Rightarrow> string list \<Rightarrow> string" where
  "Sprintf [] as = []"
| "Sprintf [c] as = [c]"
| "Sprintf (c # d # f) as =
     (if c = CHR ''%'' \<and> d = CHR ''v''
      then (case as of
              [] \<Rightarrow> ''%!v(MISSING)'' @ Sprintf f []
            | a # as' \<Rightarrow> a @ Sprintf f as')
      else c # Sprintf (d # f) as)"

text \<open>The body of the loop of \<^verbatim>\<open>Client.Info\<close>, for one line.\<close>

definition Info_line :: "(string \<Rightarrow> error + 'f) \<Rightarrow> string \<Rightarrow> error + 'f Info" where
  "Info_line pf line =
     (let parts = SplitN line (CHR '' '') 3
      in if length parts \<noteq> 3
         then Inl (Errorf (''unexpected response: not 3 parts '%s'' @ [CHR 0x27]) [Str line])
         else if parts ! 1 = ''2''
           then Inr \<lparr>Key = parts ! 0, Value = VString (parts ! 2)\<rparr>
         else if parts ! 1 = ''1''
           then (case ParseInt (parts ! 2) of
                   Inl err \<Rightarrow>
                     Inl (NewInvalidResponseError
                            (Sprintf ''info: invalid int for key %v'' [parts ! 0]) line)
                 | Inr v \<Rightarrow> Inr \<lparr>Key = parts ! 0, Value = VInt64 v\<rparr>)
         else if parts ! 1 = ''0''
           then (case pf (parts ! 2) of
                   Inl err \<Rightarrow>
                     Inl (NewInvalidResponseError
                            (Sprintf ''info: invalid float for key %v'' [parts ! 0]) line)
                 | Inr v \<Rightarrow> Inr \<lparr>Key = parts ! 0, Value = VFloat64 v\<rparr>)
         else Inl (NewInvalidResponseError
                     (Sprintf ''info: unknown type %v for key %v'' [parts ! 1, parts ! 0]) line))"

text \<open>The loop of \<^verbatim>\<open>Client.Info\<close>: the first line that fails ends it with its error.\<close>

fun Info_loop :: "(string \<Rightarrow> error + 'f) \<Rightarrow> string list \<Rightarrow> error + 'f Info list" where
  "Info_loop pf [] = Inr []"
| "Info_loop pf (line # lines) =
     (case Info_line pf line of
        Inl err \<Rightarrow> Inl err
      | Inr info \<Rightarrow>
          (case Info_loop pf lines of
             Inl err \<Rightarrow> Inl err
           | Inr data \<Rightarrow> Inr (info # data)))"

text \<open>\<^verbatim>\<open>Client.Info\<close>.\<close>

definition Info ::
  "(string \<Rightarrow> error + 'f) \<Rightarrow> world \<times> Client \<Rightarrow> string
     \<Rightarrow> ((error + 'f Info list) \<times> world \<times> Client) outcome option" where
  "Info pf s filename =
     (case ExecCmd s (WithArgs (NewCmd ''info'') [filename]) of
        None \<Rightarrow> None
      | Some Panics \<Rightarrow> Some Panics
      | Some Aborts \<Rightarrow> Some Aborts
      | Some (Returns (Inl err, s')) \<Rightarrow>
          Some (Returns
            (Inl (Errorf ''failed to get info for '%s': %w'' [Str filename, Wrapped err]), s'))
      | Some (Returns (Inr lines, s')) \<Rightarrow> Some (Returns (Info_loop pf lines, s')))"


section \<open>Reading results, and the spec's words\<close>

text \<open>
  What a call returned: \<open>None\<close> when it panicked, was stopped or never came back,
  the returned value (without the state) otherwise.
\<close>

definition result :: "('a \<times> 's) outcome option \<Rightarrow> 'a option" where
  "result r = (case r of Some (Returns (x, s)) \<Rightarrow> Some x | _ \<Rightarrow> None)"

text \<open>The byte strings passed to \<^verbatim>\<open>Write\<close> on a connection, in order.\<close>

definition written :: "conn \<Rightarrow> string list" where
  "written cn = [b. Write_call b \<leftarrow> calls cn]"

text \<open>
  The shape of a status line in the spec's words: ``an integer, which may carry a
  leading minus sign, then whitespace, then the rest''.
\<close>

definition status_shape :: "string \<Rightarrow> bool" where
  "status_shape l \<longleftrightarrow>
     (\<exists>sign ds ws rest. l = sign @ ds @ ws @ rest \<and> (sign = [] \<or> sign = ''-'') \<and>
        ds \<noteq> [] \<and> list_all isDigit ds \<and> ws \<noteq> [] \<and> list_all isSpace ws)"

text \<open>A protocol error is a value built by \<^verbatim>\<open>NewError\<close>.\<close>

fun is_protocol_error :: "error \<Rightarrow> bool" where
  "is_protocol_error (NewError code msg) = True"
| "is_protocol_error e = False"

section \<open>Example connections\<close>

text \<open>
  A connection on which every call succeeds and the peer sends \<open>bytes\<close> and closes; a
  client on a connection, as \<^verbatim>\<open>NewClient\<close> leaves it with the default timeout; a
  network that refuses every dial, in a process with 1 GiB to spare.
\<close>

definition healthy_conn :: "string \<Rightarrow> conn" where
  "healthy_conn bytes =
     \<lparr>deadline_res = (\<lambda>k. None), write_res = (\<lambda>k. None), close_res = None,
      incoming = bytes, read_err = None, deadlines = 0, writes = 0, calls = []\<rparr>"

definition client_on :: "conn \<Rightarrow> Client" where
  "client_on cn =
     \<lparr>conn = Some cn, addr = ''localhost:42217'', network = ''tcp'',
      timeout = 10000000000, scanner = NewScanner cn\<rparr>"

definition unreachable :: world where
  "unreachable =
     \<lparr>dial_res = (\<lambda>net a k. Inl (ErrOther ''connection refused'')), dials = 0,
      mem = 1073741824\<rparr>"

text \<open>A connection on which every write fails with a broken pipe.\<close>

definition broken_conn :: conn where
  "broken_conn = (healthy_conn [])\<lparr>write_res := (\<lambda>k. Some (OpError ''write'' EPIPE))\<rparr>"

text \<open>
  A stand-in for \<^verbatim>\<open>strconv.ParseFloat\<close> in the examples, with real numbers for
  floating-point numbers: it knows the two literals the examples use.
\<close>

definition example_ParseFloat :: "string \<Rightarrow> error + real" where
  "example_ParseFloat s =
     (if s = ''3.5'' then Inr 3.5
      else if s = ''0'' then Inr 0
      else Inl (NumError ''ParseFloat'' s ErrSyntax))"

section \<open>Facts about the parts\<close>

lemma setDeadline_ok:
  "conn c = Some cn \<Longrightarrow> deadline_res cn (deadlines cn) = None \<Longrightarrow>
   setDeadline c = Returns (None, c\<lparr>conn := Some (cn\<lparr>deadlines := Suc (deadlines cn),
       calls := calls cn @ [SetDeadline_call]\<rparr>)\<rparr>)"
  by (simp add: setDeadline_def conn_SetDeadline_def)

lemma read_lines_ok:
  "conn c = Some cn \<Longrightarrow> deadline_res cn = (\<lambda>k. None) \<Longrightarrow> int (length lines) \<le> cnt \<Longrightarrow>
   \<exists>c'. read_lines c cnt lines =
     Returns (if nat (cnt - int (length lines)) \<le> length (pending (scanner c))
              then Inr (lines @ take (nat (cnt - int (length lines))) (pending (scanner c)))
              else Inl (case sticky (scanner c) of Some e \<Rightarrow> e | None \<Rightarrow> ErrUnexpectedEOF), c')"
proof (induction c cnt lines arbitrary: cn rule: read_lines.induct)
  case (1 c cnt lines)
  show ?case
  proof (cases "int (length lines) < cnt")
    case False
    with "1.prems" show ?thesis
      by (subst read_lines.simps) simp
  next
    case less: True
    show ?thesis
    proof (cases "pending (scanner c)")
      case Nil
      with less show ?thesis
        by (subst read_lines.simps) (simp add: Scan_def scanErr_def Err_def)
    next
      case (Cons l ls)
      let ?sc = "(scanner c)\<lparr>pending := ls, token := l\<rparr>"
      let ?cn = "cn\<lparr>deadlines := Suc (deadlines cn), calls := calls cn @ [SetDeadline_call]\<rparr>"
      let ?c = "c\<lparr>scanner := ?sc, conn := Some ?cn\<rparr>"
      have scan: "Scan (scanner c) = (True, ?sc)"
        using Cons by (simp add: Scan_def)
      have dl: "setDeadline (c\<lparr>scanner := ?sc\<rparr>) = Returns (None, ?c)"
        using "1.prems" by (simp add: setDeadline_def conn_SetDeadline_def)
      have step: "read_lines c cnt lines = read_lines ?c cnt (lines @ [l])"
        using less scan dl by (subst read_lines.simps) (simp add: Text_def)
      have "\<exists>c'. read_lines ?c cnt (lines @ [l]) =
          Returns (if nat (cnt - (1 + int (length lines))) \<le> length ls
              then Inr (lines @ l # take (nat (cnt - (1 + int (length lines)))) ls)
              else Inl (case sticky (scanner c) of Some e \<Rightarrow> e | None \<Rightarrow> ErrUnexpectedEOF), c')"
        using "1.IH"[OF less scan[symmetric] refl dl refl refl, of ?cn] less "1.prems"
        by (simp add: Text_def cong: if_cong)
      then obtain c' where r: "read_lines ?c cnt (lines @ [l]) =
          Returns (if nat (cnt - (1 + int (length lines))) \<le> length ls
              then Inr (lines @ l # take (nat (cnt - (1 + int (length lines)))) ls)
              else Inl (case sticky (scanner c) of Some e \<Rightarrow> e | None \<Rightarrow> ErrUnexpectedEOF), c')"
        by blast
      have n: "nat (cnt - int (length lines)) = Suc (nat (cnt - (1 + int (length lines))))"
        using less by simp
      show ?thesis
        unfolding step r using Cons by (simp add: n)
    qed
  qed
qed


lemma space_not_digit: "isSpace c \<Longrightarrow> \<not> isDigit c"
  by (auto simp: isSpace_def isDigit_def)

lemma minus_not_digit: "\<not> isDigit (CHR ''-'')"
  by (simp add: isDigit_def)

lemma takeWhile_run:
  "list_all P xs \<Longrightarrow> ys \<noteq> [] \<Longrightarrow> \<not> P (hd ys) \<Longrightarrow> takeWhile P (xs @ ys @ zs) = xs"
  by (induction xs) (auto simp: neq_Nil_conv)

lemma dropWhile_run:
  "list_all P xs \<Longrightarrow> ys \<noteq> [] \<Longrightarrow> \<not> P (hd ys) \<Longrightarrow> dropWhile P (xs @ ys @ zs) = ys @ zs"
  by (induction xs) (auto simp: neq_Nil_conv)

lemma takeWhile_all: "list_all P xs \<Longrightarrow> takeWhile P (xs @ zs) = xs @ takeWhile P zs"
  by (induction xs) auto

lemma dropWhile_all: "list_all P xs \<Longrightarrow> dropWhile P (xs @ zs) = dropWhile P zs"
  by (induction xs) auto

lemma respRe_shape:
  assumes sign: "sign = [] \<or> sign = ''-''"
    and ds: "ds \<noteq> []" "list_all isDigit ds"
    and ws: "ws \<noteq> []" "list_all isSpace ws"
    and rest: "CHR 0x0A \<notin> set (dropWhile isSpace rest)"
  shows "respRe_FindStringSubmatch (sign @ ds @ ws @ rest) =
           [sign @ ds @ ws @ rest, sign @ ds, dropWhile isSpace rest]"
proof -
  let ?l = "sign @ ds @ ws @ rest"
  have hd_ds: "isDigit (hd ds)"
    using ds by (cases ds) auto
  have s: "(if ?l \<noteq> [] \<and> hd ?l = CHR ''-'' then ''-'' else []) = sign"
    using sign ds hd_ds minus_not_digit by (auto simp: hd_append)
  have d: "drop (length sign) ?l = ds @ ws @ rest"
    by simp
  have nd: "\<not> isDigit (hd ws)"
    using ws by (cases ws) (auto dest: space_not_digit)
  have t1: "takeWhile isDigit (ds @ ws @ rest) = ds"
    using ds ws nd by (simp add: takeWhile_run)
  have d1: "dropWhile isDigit (ds @ ws @ rest) = ws @ rest"
    using ds ws nd by (simp add: dropWhile_run)
  have t2: "takeWhile isSpace (ws @ rest) = ws @ takeWhile isSpace rest"
    using ws by (simp add: takeWhile_all)
  have d2: "dropWhile isSpace (ws @ rest) = dropWhile isSpace rest"
    using ws by (simp add: dropWhile_all)
  show ?thesis
    unfolding respRe_FindStringSubmatch_def s d Let_def t1 d1 t2 d2
    using ds ws rest by simp
qed

lemma dropWhile_id: "xs = [] \<or> \<not> P (hd xs) \<Longrightarrow> dropWhile P xs = xs"
  by (cases xs) auto

lemma respRe_header:
  assumes "sign = [] \<or> sign = ''-''"
    and "ds \<noteq> []" "list_all isDigit ds"
    and "ws \<noteq> []" "list_all isSpace ws"
    and "msg = [] \<or> \<not> isSpace (hd msg)" "CHR 0x0A \<notin> set msg"
  shows "respRe_FindStringSubmatch (sign @ ds @ ws @ msg) =
           [sign @ ds @ ws @ msg, sign @ ds, msg]"
  using respRe_shape[of sign ds ws msg] assms by (simp add: dropWhile_id)

lemma decimal_nonneg: "0 \<le> a \<Longrightarrow> list_all isDigit ds \<Longrightarrow> 0 \<le> foldl (\<lambda>a c. 10 * a + digit_val c) a ds"
proof (induction ds arbitrary: a)
  case Nil then show ?case by simp
next
  case (Cons d ds)
  have "0 \<le> digit_val d" using Cons.prems(2) by (auto simp: isDigit_def digit_val_def)
  with Cons show ?case by simp
qed

lemma Atoi_digits:
  assumes "ds \<noteq> []" "list_all isDigit ds" "decimal ds < 2 ^ 63"
  shows "Atoi ds = Inr (decimal ds)"
proof -
  have "isDigit (hd ds)" using assms by (cases ds) auto
  then have "hd ds \<noteq> CHR ''-''" "hd ds \<noteq> CHR ''+''"
    by (auto simp: isDigit_def)
  moreover have "0 \<le> decimal ds"
    using decimal_nonneg[of 0 ds] assms by (simp add: decimal_def)
  ultimately show ?thesis
    using assms by (simp add: Atoi_def parse_int64_def)
qed

lemma Atoi_minus_digits:
  assumes "ds \<noteq> []" "list_all isDigit ds" "decimal ds \<le> 2 ^ 63"
  shows "Atoi (''-'' @ ds) = Inr (- decimal ds)"
proof -
  have "0 \<le> decimal ds"
    using decimal_nonneg[of 0 ds] assms by (simp add: decimal_def)
  then show ?thesis
    using assms by (simp add: Atoi_def parse_int64_def)
qed


lemma setDeadline_conn:
  "conn c = Some cn \<Longrightarrow>
   \<exists>err cn'. setDeadline c = Returns (err, c\<lparr>conn := Some cn'\<rparr>)"
  by (simp add: setDeadline_def conn_SetDeadline_def) (rule exI, rule refl)

lemma read_lines_short:
  "conn c = Some cn \<Longrightarrow> int (length lines) + int (length (pending (scanner c))) < cnt \<Longrightarrow>
   \<exists>e c'. read_lines c cnt lines = Returns (Inl e, c')"
proof (induction c cnt lines arbitrary: cn rule: read_lines.induct)
  case (1 c cnt lines)
  from "1.prems" have less: "int (length lines) < cnt"
    by simp
  show ?case
  proof (cases "pending (scanner c)")
    case Nil
    with less show ?thesis
      by (subst read_lines.simps) (simp add: Scan_def)
  next
    case (Cons l ls)
    let ?sc = "(scanner c)\<lparr>pending := ls, token := l\<rparr>"
    have scan: "Scan (scanner c) = (True, ?sc)"
      using Cons by (simp add: Scan_def)
    obtain err cn' where dl: "setDeadline (c\<lparr>scanner := ?sc\<rparr>) =
        Returns (err, c\<lparr>scanner := ?sc, conn := Some cn'\<rparr>)"
      using setDeadline_conn[of "c\<lparr>scanner := ?sc\<rparr>" cn] "1.prems"(1) by auto
    show ?thesis
    proof (cases err)
      case (Some e)
      with less scan dl show ?thesis
        by (subst read_lines.simps) simp
    next
      case None
      have "\<exists>e c'. read_lines (c\<lparr>scanner := ?sc, conn := Some cn'\<rparr>) cnt (lines @ [Text ?sc]) =
          Returns (Inl e, c')"
        using "1.IH"[OF less scan[symmetric] refl dl refl None, of cn'] "1.prems"(2) Cons
        by simp
      with less scan dl None show ?thesis
        by (subst read_lines.simps) simp
    qed
  qed
qed

lemma read_reply_scan:
  assumes "conn c = Some cn" "deadline_res cn (deadlines cn) = None"
    and "pending (scanner c) = l # ls"
  shows "read_reply w c =
     (let c2 = c\<lparr>conn := Some (cn\<lparr>deadlines := Suc (deadlines cn),
                     calls := calls cn @ [SetDeadline_call]\<rparr>),
                  scanner := (scanner c)\<lparr>pending := ls, token := l\<rparr>\<rparr>;
          matches = respRe_FindStringSubmatch l
      in if length matches \<noteq> 3
         then Returns (Inl (Errorf (''not 3 matches: '%s'' @ [CHR 0x27]) [Str l]), c2)
         else (case Atoi (matches ! 1) of
                 Inl err \<Rightarrow>
                   Returns (Inl (Errorf ''failed to convert to int '%s': %w''
                                   [Str (matches ! 1), Wrapped err]), c2)
               | Inr cnt \<Rightarrow>
                   (if cnt < 0 then Returns (Inl (NewError cnt (matches ! 2)), c2)
                    else if cnt = 0 then Returns (Inr [matches ! 2], c2)
                    else (case setDeadline c2 of
                            Panics \<Rightarrow> Panics
                          | Aborts \<Rightarrow> Aborts
                          | Returns (Some err, c3) \<Rightarrow> Returns (Inl err, c3)
                          | Returns (None, c3) \<Rightarrow>
                              (case makeslice w cnt of
                                 Panics \<Rightarrow> Panics
                               | Aborts \<Rightarrow> Aborts
                               | Returns lines \<Rightarrow> read_lines c3 cnt lines)))))"
  using assms
  by (simp add: read_reply_def setDeadline_ok Scan_def Text_def Let_def cong: if_cong sum.case_cong)

lemma read_reply_negative:
  assumes "conn c = Some cn" "deadline_res cn (deadlines cn) = None"
    and "pending (scanner c) = l # ls"
    and "respRe_FindStringSubmatch l = [l, m1, m2]" "Atoi m1 = Inr cnt" "cnt < 0"
  shows "\<exists>c'. read_reply w c = Returns (Inl (NewError cnt m2), c')"
  using assms(4-) by (simp add: read_reply_scan[OF assms(1-3)])

lemma read_reply_zero:
  assumes "conn c = Some cn" "deadline_res cn (deadlines cn) = None"
    and "pending (scanner c) = l # ls"
    and "respRe_FindStringSubmatch l = [l, m1, m2]" "Atoi m1 = Inr 0"
  shows "\<exists>c'. read_reply w c = Returns (Inr [m2], c')"
  using assms(4-) by (simp add: read_reply_scan[OF assms(1-3)])

lemma read_reply_no_match:
  assumes "conn c = Some cn" "deadline_res cn (deadlines cn) = None"
    and "pending (scanner c) = l # ls"
    and "respRe_FindStringSubmatch l = []"
  shows "\<exists>c'. read_reply w c =
           Returns (Inl (Errorf (''not 3 matches: '%s'' @ [CHR 0x27]) [Str l]), c')"
  using assms(4-) by (simp add: read_reply_scan[OF assms(1-3)])

lemma read_reply_positive:
  assumes "conn c = Some cn" "deadline_res cn = (\<lambda>k. None)"
    and "pending (scanner c) = l # ls"
    and "respRe_FindStringSubmatch l = [l, m1, m2]" "Atoi m1 = Inr cnt" "0 < cnt"
    and "makeslice w cnt = Returns []"
  shows "\<exists>c'. read_reply w c =
     Returns (if nat cnt \<le> length ls then Inr (take (nat cnt) ls)
              else Inl (case sticky (scanner c) of Some e \<Rightarrow> e | None \<Rightarrow> ErrUnexpectedEOF), c')"
proof -
  let ?cn2 = "cn\<lparr>deadlines := Suc (deadlines cn), calls := calls cn @ [SetDeadline_call]\<rparr>"
  let ?c2 = "c\<lparr>conn := Some ?cn2, scanner := (scanner c)\<lparr>pending := ls, token := l\<rparr>\<rparr>"
  let ?cn3 = "?cn2\<lparr>deadlines := Suc (deadlines ?cn2), calls := calls ?cn2 @ [SetDeadline_call]\<rparr>"
  let ?c3 = "?c2\<lparr>conn := Some ?cn3\<rparr>"
  have d0: "deadline_res cn (deadlines cn) = None"
    using assms(2) by simp
  have d2: "setDeadline ?c2 = Returns (None, ?c3)"
    using assms(2) by (intro setDeadline_ok) simp_all
  have "read_reply w c = read_lines ?c3 cnt []"
    using assms(4-) by (simp add: read_reply_scan[OF assms(1) d0 assms(3)] d2 Let_def)
  moreover have "\<exists>c'. read_lines ?c3 cnt [] =
     Returns (if nat (cnt - int (length ([]::string list))) \<le> length (pending (scanner ?c3))
              then Inr ([] @ take (nat (cnt - int (length ([]::string list)))) (pending (scanner ?c3)))
              else Inl (case sticky (scanner ?c3) of Some e \<Rightarrow> e | None \<Rightarrow> ErrUnexpectedEOF), c')"
    using assms(2,6) by (intro read_lines_ok[of ?c3 ?cn3]) simp_all
  ultimately show ?thesis
    by (simp cong: if_cong)
qed

lemma makeslice_cases:
  "makeslice w cap = Returns [] \<or> makeslice w cap = Panics \<or> makeslice w cap = Aborts"
  by (simp add: makeslice_def)

lemma makeslice_ok:
  assumes "0 \<le> cap" "16 * cap \<le> 2 ^ 48" "16 * cap \<le> 32768 \<or> 16 * cap \<le> int (mem w)"
  shows "makeslice w cap = Returns []"
  using assms by (auto simp: makeslice_def stringSize_def maxAlloc_def maxSmallSize_def)

lemma makeslice_out_of_range:
  assumes "2 ^ 48 < 16 * cap"
  shows "makeslice w cap = Panics"
  using assms by (simp add: makeslice_def stringSize_def maxAlloc_def)

lemma read_reply_short:
  assumes "conn c = Some cn" "pending (scanner c) = l # ls"
    and "respRe_FindStringSubmatch l = [l, m1, m2]" "Atoi m1 = Inr cnt" "int (length ls) < cnt"
  shows "(\<exists>e c'. read_reply w c = Returns (Inl e, c')) \<or>
         (makeslice w cnt \<noteq> Returns [] \<and> (read_reply w c = Panics \<or> read_reply w c = Aborts))"
proof (cases "deadline_res cn (deadlines cn)")
  case (Some e)
  with assms(1) show ?thesis
    by (simp add: read_reply_def setDeadline_def conn_SetDeadline_def)
next
  case None
  let ?cn2 = "cn\<lparr>deadlines := Suc (deadlines cn), calls := calls cn @ [SetDeadline_call]\<rparr>"
  let ?c2 = "c\<lparr>conn := Some ?cn2, scanner := (scanner c)\<lparr>pending := ls, token := l\<rparr>\<rparr>"
  obtain err cn3 where dl: "setDeadline ?c2 = Returns (err, ?c2\<lparr>conn := Some cn3\<rparr>)"
    using setDeadline_conn[of ?c2 ?cn2] by auto
  have pos: "\<not> cnt < 0" "cnt \<noteq> 0"
    using assms(5) by auto
  have rr: "read_reply w c = (case err of Some e \<Rightarrow> Returns (Inl e, ?c2\<lparr>conn := Some cn3\<rparr>)
      | None \<Rightarrow> (case makeslice w cnt of Panics \<Rightarrow> Panics | Aborts \<Rightarrow> Aborts
          | Returns lines \<Rightarrow> read_lines (?c2\<lparr>conn := Some cn3\<rparr>) cnt lines))"
    using assms(3,4) pos
    by (simp add: read_reply_scan[OF assms(1) None assms(2)] dl Let_def
        split: option.splits cong: outcome.case_cong)
  show ?thesis
  proof (cases err)
    case (Some e)
    then show ?thesis unfolding rr by simp
  next
    case None
    have "\<exists>e c'. read_lines (?c2\<lparr>conn := Some cn3\<rparr>) cnt [] = Returns (Inl e, c')"
      using assms(5) by (intro read_lines_short[of _ cn3]) simp_all
    with None makeslice_cases[of w cnt] show ?thesis unfolding rr by auto
  qed
qed

lemma read_reply_out_of_range:
  assumes "conn c = Some cn" "deadline_res cn (deadlines cn) = None"
    and "deadline_res cn (Suc (deadlines cn)) = None"
    and "pending (scanner c) = l # ls"
    and "respRe_FindStringSubmatch l = [l, m1, m2]" "Atoi m1 = Inr cnt" "2 ^ 48 < 16 * cnt"
  shows "read_reply w c = Panics"
proof -
  let ?cn2 = "cn\<lparr>deadlines := Suc (deadlines cn), calls := calls cn @ [SetDeadline_call]\<rparr>"
  let ?c2 = "c\<lparr>conn := Some ?cn2, scanner := (scanner c)\<lparr>pending := ls, token := l\<rparr>\<rparr>"
  let ?cn3 = "?cn2\<lparr>deadlines := Suc (deadlines ?cn2), calls := calls ?cn2 @ [SetDeadline_call]\<rparr>"
  have d2: "setDeadline ?c2 = Returns (None, ?c2\<lparr>conn := Some ?cn3\<rparr>)"
    using assms(3) by (intro setDeadline_ok) simp_all
  have pos: "\<not> cnt < 0" "cnt \<noteq> 0"
    using assms(7) by auto
  show ?thesis
    using assms(5,6) pos makeslice_out_of_range[OF assms(7), of w]
    by (simp add: read_reply_scan[OF assms(1,2,4)] d2 Let_def)
qed

lemma ExecCmd_sent:
  assumes "setDeadline c = Returns (None, c1)"
    and "write_loop (w, c1) (Cmd_String cmd) = Some (Returns (None, w2, c2))"
    and "read_reply w2 c2 = Returns (r, c3)"
  shows "ExecCmd (w, c) cmd = Some (Returns (r, w2, c3))"
  using assms by (simp add: ExecCmd_def)

lemma ExecCmd_sent_stopped:
  assumes "setDeadline c = Returns (None, c1)"
    and "write_loop (w, c1) (Cmd_String cmd) = Some (Returns (None, w2, c2))"
  shows "read_reply w2 c2 = Panics \<Longrightarrow> ExecCmd (w, c) cmd = Some Panics"
    and "read_reply w2 c2 = Aborts \<Longrightarrow> ExecCmd (w, c) cmd = Some Aborts"
  using assms by (simp_all add: ExecCmd_def)

lemma result_ExecCmd_sent:
  assumes "setDeadline c = Returns (None, c1)"
    and "write_loop (w, c1) (Cmd_String cmd) = Some (Returns (None, w2, c2))"
    and "\<exists>c3. read_reply w2 c2 = Returns (r, c3)"
  shows "result (ExecCmd (w, c) cmd) = Some r"
  using assms by (auto simp: ExecCmd_def result_def)

lemma raw_lines_Nil: "raw_lines [] = []"
  by (subst raw_lines.simps) simp

lemma raw_lines_Cons:
  "raw_lines (c # cs) =
     (if c = CHR 0x0A then [] # raw_lines cs
      else (case raw_lines cs of [] \<Rightarrow> [[c]] | l # ls \<Rightarrow> (c # l) # ls))"
proof (cases "c = CHR 0x0A")
  case True
  then show ?thesis by (subst raw_lines.simps) simp
next
  case False
  show ?thesis
  proof (cases "cs = []")
    case True
    with False show ?thesis by (subst raw_lines.simps) (simp add: raw_lines_Nil)
  next
    case ne: False
    have tw: "takeWhile (\<lambda>c. c \<noteq> CHR 0x0A) cs = cs" if "CHR 0x0A \<notin> set cs"
      using that by (auto simp: takeWhile_eq_all_conv)
    have "raw_lines cs = takeWhile (\<lambda>c. c \<noteq> CHR 0x0A) cs #
       (if CHR 0x0A \<in> set cs then raw_lines (tl (dropWhile (\<lambda>c. c \<noteq> CHR 0x0A) cs)) else [])"
      using ne by (subst raw_lines.simps) (simp add: tw)
    moreover have "raw_lines (c # cs) = (c # takeWhile (\<lambda>c. c \<noteq> CHR 0x0A) cs) #
       (if CHR 0x0A \<in> set cs then raw_lines (tl (dropWhile (\<lambda>c. c \<noteq> CHR 0x0A) cs)) else [])"
      using False by (subst raw_lines.simps) (simp add: tw)
    ultimately show ?thesis
      using False by simp
  qed
qed

lemma write_loop_ok:
  "conn c = Some cn \<Longrightarrow> write_res cn (writes cn) = None \<Longrightarrow>
   write_loop (w, c) b = Some (Returns (None, w, c\<lparr>conn := Some (snd (conn_Write cn b))\<rparr>))"
  by (subst write_loop.simps) (simp add: conn_Write_def)

lemma first_write_ok:
  assumes "conn c = Some cn" "deadline_res cn (deadlines cn) = None"
    and "write_res cn (writes cn) = None"
  shows "setDeadline c = Returns (None, c\<lparr>conn := Some (snd (conn_SetDeadline cn))\<rparr>)"
    and "write_loop (w, c\<lparr>conn := Some (snd (conn_SetDeadline cn))\<rparr>) b =
           Some (Returns (None, w,
             c\<lparr>conn := Some (snd (conn_Write (snd (conn_SetDeadline cn)) b))\<rparr>))"
proof -
  show "setDeadline c = Returns (None, c\<lparr>conn := Some (snd (conn_SetDeadline cn))\<rparr>)"
    using assms by (simp add: setDeadline_def conn_SetDeadline_def)
  have "write_loop (w, c\<lparr>conn := Some (snd (conn_SetDeadline cn))\<rparr>) b =
      Some (Returns (None, w, c\<lparr>conn := Some (snd (conn_SetDeadline cn))\<rparr>
        \<lparr>conn := Some (snd (conn_Write (snd (conn_SetDeadline cn)) b))\<rparr>))"
    using assms by (intro write_loop_ok) (simp_all add: conn_SetDeadline_def)
  then show "write_loop (w, c\<lparr>conn := Some (snd (conn_SetDeadline cn))\<rparr>) b =
           Some (Returns (None, w,
             c\<lparr>conn := Some (snd (conn_Write (snd (conn_SetDeadline cn)) b))\<rparr>))"
    by simp
qed

lemmas eval_simps = ExecCmd_def result_def client_on_def healthy_conn_def unreachable_def
  setDeadline_def conn_SetDeadline_def conn_Write_def write_loop.simps read_reply_def
  makeslice_def stringSize_def maxAlloc_def maxSmallSize_def NewScanner_def raw_lines_Cons raw_lines_Nil dropCR_def maxTokenSize_def Scan_def Text_def
  respRe_FindStringSubmatch_def isDigit_def isSpace_def Atoi_def parse_int64_def decimal_def
  digit_val_def read_lines.simps scanErr_def Err_def Let_def

lemma respRe_match_shape: "respRe_FindStringSubmatch l \<noteq> [] \<Longrightarrow> status_shape l"
proof -
  assume m: "respRe_FindStringSubmatch l \<noteq> []"
  let ?sign = "if l \<noteq> [] \<and> hd l = CHR ''-'' then ''-'' else []"
  let ?r0 = "drop (length ?sign) l"
  let ?ds = "takeWhile isDigit ?r0"
  let ?r1 = "dropWhile isDigit ?r0"
  let ?ws = "takeWhile isSpace ?r1"
  let ?rest = "dropWhile isSpace ?r1"
  from m have ne: "?ds \<noteq> []" "?ws \<noteq> []"
    by (auto simp: respRe_FindStringSubmatch_def Let_def split: if_splits)
  have "l = ?sign @ ?r0"
    by (cases l) auto
  also have "?r0 = ?ds @ ?r1"
    by simp
  also have "?r1 = ?ws @ ?rest"
    by simp
  finally have "l = ?sign @ ?ds @ ?ws @ ?rest" .
  moreover have "list_all isDigit ?ds" "list_all isSpace ?ws"
    by (auto simp: list_all_iff dest: set_takeWhileD)
  moreover have "?sign = [] \<or> ?sign = ''-''"
    by simp
  ultimately show ?thesis
    unfolding status_shape_def using ne by blast
qed

lemma status_shape_match:
  assumes "status_shape l" "CHR 0x0A \<notin> set l"
  shows "respRe_FindStringSubmatch l \<noteq> []"
proof -
  from assms(1) obtain sign ds ws rest where l: "l = sign @ ds @ ws @ rest"
    and c: "sign = [] \<or> sign = ''-''" "ds \<noteq> []" "list_all isDigit ds"
      "ws \<noteq> []" "list_all isSpace ws"
    unfolding status_shape_def by blast
  have "CHR 0x0A \<notin> set (dropWhile isSpace rest)"
    using assms(2) l by (auto dest: set_dropWhileD)
  from respRe_shape[OF c this] show ?thesis
    by (simp add: l)
qed

lemmas scanner_simps = client_on_def NewScanner_def healthy_conn_def raw_lines_Cons raw_lines_Nil
  dropCR_def maxTokenSize_def

lemma SplitN_step:
  assumes "sep \<notin> set a"
  shows "SplitN (a @ sep # r) sep (Suc (Suc n)) = a # SplitN r sep (Suc n)"
proof -
  have "takeWhile (\<lambda>c. c \<noteq> sep) (a @ sep # r) = a"
    using assms by (induction a) auto
  moreover have "dropWhile (\<lambda>c. c \<noteq> sep) (a @ sep # r) = sep # r"
    using assms by (induction a) auto
  ultimately show ?thesis
    by simp
qed

lemma count_none: "sep \<notin> set s \<Longrightarrow> filter (\<lambda>c. c = sep) s = []"
  by (induction s) auto

lemma SplitN_3_length:
  "length (SplitN s sep 3) = 3 \<longleftrightarrow> 2 \<le> length (filter (\<lambda>c. c = sep) s)"
proof (cases "sep \<in> set s")
  case False
  then show ?thesis
    by (simp add: numeral_3_eq_3 count_none)
next
  case True
  then obtain a r where s: "s = a @ sep # r" and a: "sep \<notin> set a"
    by (auto dest: split_list_first)
  show ?thesis
  proof (cases "sep \<in> set r")
    case False
    then show ?thesis
      unfolding s numeral_3_eq_3 SplitN_step[OF a] by (simp add: count_none a)
  next
    case True
    then obtain a' r' where r: "r = a' @ sep # r'" and a': "sep \<notin> set a'"
      by (auto dest: split_list_first)
    show ?thesis
      unfolding s r numeral_3_eq_3 SplitN_step[OF a] SplitN_step[OF a']
      by (simp add: count_none a a')
  qed
qed

lemma SplitN_fields:
  assumes "sep \<notin> set key" "sep \<notin> set tag"
  shows "SplitN (key @ sep # tag @ sep # raw) sep 3 = [key, tag, raw]"
  unfolding numeral_3_eq_3 SplitN_step[OF assms(1)] SplitN_step[OF assms(2)] by simp

lemma Info_loop_Inr:
  "Info_loop pf lines = Inr data \<Longrightarrow>
   length data = length lines \<and> (\<forall>i<length lines. Info_line pf (lines ! i) = Inr (data ! i))"
proof (induction lines arbitrary: data)
  case Nil
  then show ?case by simp
next
  case (Cons l ls)
  from Cons.prems obtain info rest where l: "Info_line pf l = Inr info"
    and r: "Info_loop pf ls = Inr rest" and d: "data = info # rest"
    by (auto split: sum.splits)
  from Cons.IH[OF r] l d show ?case
    by (auto simp: nth_Cons split: nat.splits)
qed

lemma Info_loop_Inl:
  "line \<in> set lines \<Longrightarrow> Info_line pf line = Inl e \<Longrightarrow> \<exists>e'. Info_loop pf lines = Inl e'"
  by (induction lines) (auto split: sum.splits)

lemma Info_line_fields:
  assumes "CHR '' '' \<notin> set key" "CHR '' '' \<notin> set tag"
  shows "Info_line pf (key @ '' '' @ tag @ '' '' @ raw) =
     (if tag = ''2'' then Inr \<lparr>Key = key, Value = VString raw\<rparr>
      else if tag = ''1''
        then (case ParseInt raw of
                Inl err \<Rightarrow> Inl (NewInvalidResponseError (''info: invalid int for key '' @ key)
                                  (key @ '' '' @ tag @ '' '' @ raw))
              | Inr v \<Rightarrow> Inr \<lparr>Key = key, Value = VInt64 v\<rparr>)
      else if tag = ''0''
        then (case pf raw of
                Inl err \<Rightarrow> Inl (NewInvalidResponseError (''info: invalid float for key '' @ key)
                                  (key @ '' '' @ tag @ '' '' @ raw))
              | Inr v \<Rightarrow> Inr \<lparr>Key = key, Value = VFloat64 v\<rparr>)
      else Inl (NewInvalidResponseError (''info: unknown type '' @ tag @ '' for key '' @ key)
                  (key @ '' '' @ tag @ '' '' @ raw)))"
proof -
  have "SplitN (key @ '' '' @ tag @ '' '' @ raw) (CHR '' '') 3 = [key, tag, raw]"
    using SplitN_fields[OF assms, of raw] by simp
  then show ?thesis
    by (simp add: Info_line_def Let_def cong: sum.case_cong)
qed

lemma ParseInt_range: "ParseInt raw = Inr v \<Longrightarrow> - (2 ^ 63) \<le> v \<and> v < 2 ^ 63"
  by (auto simp: ParseInt_def parse_int64_def Let_def split: if_splits)

lemma Info_result_Inr:
  assumes "result (ExecCmd s (WithArgs (NewCmd ''info'') [filename])) = Some (Inr lines)"
  shows "result (Info pf s filename) = Some (Info_loop pf lines)"
  using assms
  by (auto simp: Info_def result_def split: option.splits outcome.splits sum.splits prod.splits)

lemmas info_simps = Info_line_def numeral_3_eq_3 Let_def ParseInt_def parse_int64_def
  isDigit_def decimal_def digit_val_def example_ParseFloat_def

lemma write_loop_other:
  assumes "conn c = Some cn" "write_res cn (writes cn) = Some err"
    and "\<not> errors_Is err EPIPE" "\<not> errors_Is err ECONNRESET"
  shows "write_loop (w, c) b =
     Some (Returns (Some (Errorf ''failed to write: %w'' [Wrapped err]),
                    w, c\<lparr>conn := Some (snd (conn_Write cn b))\<rparr>))"
  using assms by (subst write_loop.simps) (simp add: conn_Write_def)

lemma write_loop_redial_failed:
  assumes "conn c = Some cn" "write_res cn (writes cn) = Some err"
    and "errors_Is err EPIPE \<or> errors_Is err ECONNRESET"
    and "dial_res w (network c) (addr c) (dials w) = Inl derr"
  shows "write_loop (w, c) b =
     Some (Returns (Some (Errorf ''failed to write (%s) and failed to reestablish: %w''
                            [ErrorText err, Wrapped (Errorf ''failed to dial: %w'' [Wrapped derr])]),
                    w\<lparr>dials := Suc (dials w)\<rparr>, c\<lparr>conn := None\<rparr>))"
  using assms
  by (subst write_loop.simps) (auto simp: conn_Write_def initConnection_def DialTimeout_def)

lemma write_loop_retry:
  assumes "conn c = Some cn" "write_res cn (writes cn) = Some err"
    and "errors_Is err EPIPE \<or> errors_Is err ECONNRESET"
    and "dial_res w (network c) (addr c) (dials w) = Inr cn2"
  shows "write_loop (w, c) b =
     write_loop (w\<lparr>dials := Suc (dials w)\<rparr>, c\<lparr>conn := Some cn2, scanner := NewScanner cn2\<rparr>) b"
  using assms
  by (subst write_loop.simps) (auto simp: conn_Write_def initConnection_def DialTimeout_def)

lemma write_loop_never_ends_aux:
  assumes "write_loop s b = Some y"
  shows "\<forall>w c cn err. s = (w, c) \<longrightarrow> conn c = Some cn \<longrightarrow> write_res cn (writes cn) = Some err \<longrightarrow>
     (errors_Is err EPIPE \<or> errors_Is err ECONNRESET) \<longrightarrow>
     (\<forall>k\<ge>dials w. \<exists>cn2 e. dial_res w (network c) (addr c) k = Inr cn2 \<and>
        write_res cn2 (writes cn2) = Some e \<and> (errors_Is e EPIPE \<or> errors_Is e ECONNRESET)) \<longrightarrow>
     False"
    (is "?P s b y")
proof (rule write_loop.raw_induct[where P = ?P, OF _ assms])
  fix loop :: "world \<times> Client \<Rightarrow> string \<Rightarrow> (error option \<times> world \<times> Client) outcome option"
  fix s b y
  assume IH: "\<And>s b y. loop s b = Some y \<Longrightarrow> ?P s b y"
  assume body: "(case s of
      (w, c) \<Rightarrow>
        case conn c of None \<Rightarrow> Some Panics
        | Some cn \<Rightarrow>
            case conn_Write cn b of
            (None, cn') \<Rightarrow> Some (Returns (None, w, c\<lparr>conn := Some cn'\<rparr>))
            | (Some err, cn') \<Rightarrow>
                if errors_Is err EPIPE \<or> errors_Is err ECONNRESET
                then case initConnection (w, c\<lparr>conn := Some cn'\<rparr>) of
                     (None, s2) \<Rightarrow> loop s2 b
                     | (Some err2, s2) \<Rightarrow>
                         Some (Returns (Some (Errorf
                                ''failed to write (%s) and failed to reestablish: %w''
                                [ErrorText err, Wrapped err2]), s2))
                else Some (Returns (Some (Errorf ''failed to write: %w'' [Wrapped err]),
                         w, c\<lparr>conn := Some cn'\<rparr>))) = Some y"
  show "?P s b y"
  proof (intro allI impI)
    fix w c cn err
    assume s: "s = (w, c)" and c: "conn c = Some cn"
      and wr: "write_res cn (writes cn) = Some err"
      and rt: "errors_Is err EPIPE \<or> errors_Is err ECONNRESET"
      and all: "\<forall>k\<ge>dials w. \<exists>cn2 e. dial_res w (network c) (addr c) k = Inr cn2 \<and>
        write_res cn2 (writes cn2) = Some e \<and> (errors_Is e EPIPE \<or> errors_Is e ECONNRESET)"
    obtain cn2 e where dial: "dial_res w (network c) (addr c) (dials w) = Inr cn2"
      and e: "write_res cn2 (writes cn2) = Some e" "errors_Is e EPIPE \<or> errors_Is e ECONNRESET"
      using all by blast
    let ?w = "w\<lparr>dials := Suc (dials w)\<rparr>"
    let ?c = "c\<lparr>conn := Some cn2, scanner := NewScanner cn2\<rparr>"
    let ?cn' = "cn\<lparr>writes := Suc (writes cn), calls := calls cn @ [Write_call b]\<rparr>"
    have cw: "conn_Write cn b = (Some err, ?cn')"
      using wr by (simp add: conn_Write_def)
    have i: "initConnection (w, c\<lparr>conn := Some ?cn'\<rparr>) = (None, ?w, ?c)"
      using dial by (simp add: initConnection_def DialTimeout_def)
    have step: "loop (?w, ?c) b = Some y"
      using body unfolding s by (simp add: c cw i rt)
    have next_all: "\<forall>k\<ge>dials ?w. \<exists>cn2 e. dial_res ?w (network ?c) (addr ?c) k = Inr cn2 \<and>
        write_res cn2 (writes cn2) = Some e \<and> (errors_Is e EPIPE \<or> errors_Is e ECONNRESET)"
      using all by simp
    have c2: "conn ?c = Some cn2"
      by simp
    from IH[OF step] c2 e next_all show False
      by blast
  qed
qed

text \<open>
  A count whose slice is out of range makes \<^verbatim>\<open>ExecCmd\<close> panic as soon as the status
  line is parsed, whatever follows it; a count in range whose slice is not to be had
  stops the program.
\<close>

lemma ExecCmd_count_out_of_range:
  assumes "setDeadline c = Returns (None, c1)"
    and "write_loop (w, c1) (Cmd_String cmd) = Some (Returns (None, w2, c2))"
    and "conn c2 = Some cn" "deadline_res cn (deadlines cn) = None"
    and "deadline_res cn (Suc (deadlines cn)) = None"
    and "pending (scanner c2) = (ds @ ws @ msg) # ls"
    and "ds \<noteq> []" "list_all isDigit ds" "ws \<noteq> []" "list_all isSpace ws"
    and "msg = [] \<or> \<not> isSpace (hd msg)" "CHR 0x0A \<notin> set msg"
    and "decimal ds < 2 ^ 63" "2 ^ 48 < 16 * decimal ds"
  shows "ExecCmd (w, c) cmd = Some Panics"
proof -
  have m: "respRe_FindStringSubmatch (ds @ ws @ msg) = [ds @ ws @ msg, ds, msg]"
    using respRe_header[of "[]" ds ws msg] assms(7-12) by simp
  have a: "Atoi ds = Inr (decimal ds)"
    using assms(7,8,13) by (rule Atoi_digits)
  from read_reply_out_of_range[OF assms(3,4,5,6) m a assms(14), of w2]
  show ?thesis
    by (rule ExecCmd_sent_stopped(1)[OF assms(1,2)])
qed

lemma ExecCmd_largest_count_panics:
  "ExecCmd (unreachable, client_on (healthy_conn (''9223372036854775807 x'' @ [CHR 0x0A])))
     (NewCmd ''help'') = Some Panics"
  by (simp add: eval_simps)

lemma ExecCmd_large_count_aborts:
  "ExecCmd (unreachable, client_on (healthy_conn (''1099511627776 x'' @ [CHR 0x0A])))
     (NewCmd ''help'') = Some Aborts"
  by (simp add: eval_simps)

section \<open>Closing the connection\<close>

text \<open>
  C9.  On a client that holds a connection, \<^verbatim>\<open>Close\<close> calls \<^verbatim>\<open>SetDeadline\<close>,
  \<^verbatim>\<open>Write\<close> with \<open>quit\<close> and \<^verbatim>\<open>Close\<close> on it, in this order and whatever the
  first two answer.  It returns the error of closing the stream when there is one;
  otherwise the error of the deadline refresh when there is one; otherwise the answer
  of the write, which is no error when all three calls succeed.
\<close>

theorem Close_error_priority:
  assumes "conn c = Some cn"
  shows "Close c =
     Returns (case close_res cn of
                Some e \<Rightarrow> Some e
              | None \<Rightarrow>
                  (case deadline_res cn (deadlines cn) of
                     Some e \<Rightarrow> Some e
                   | None \<Rightarrow> write_res cn (writes cn)),
              c\<lparr>conn := Some (cn\<lparr>deadlines := Suc (deadlines cn),
                                  writes := Suc (writes cn),
                                  calls := calls cn @
                                    [SetDeadline_call, Write_call ''quit'', Close_call]\<rparr>)\<rparr>)"
  using assms
  by (simp add: Close_def setDeadline_def conn_SetDeadline_def conn_Write_def conn_Close_def
      split: option.splits)

theorem Close_error_priority_witness:
  "conn (client_on (healthy_conn [])) = Some (healthy_conn []) \<and>
   Close (client_on (healthy_conn [])) =
     Returns (None,
       (client_on (healthy_conn []))\<lparr>conn := Some ((healthy_conn [])\<lparr>deadlines := 1, writes := 1,
          calls := [SetDeadline_call, Write_call ''quit'', Close_call]\<rparr>)\<rparr>)"
  using Close_error_priority[of "client_on (healthy_conn [])" "healthy_conn []"]
  by (simp add: client_on_def healthy_conn_def)

text \<open>
  C10.  The one write of \<^verbatim>\<open>Close\<close> passes exactly the four bytes \<open>quit\<close>, with no
  newline in them.
\<close>

theorem Close_writes_quit:
  assumes "conn c = Some cn"
  shows "\<exists>err c' cn'. Close c = Returns (err, c') \<and> conn c' = Some cn' \<and>
           written cn' = written cn @ [''quit''] \<and>
           length ''quit'' = 4 \<and> CHR 0x0A \<notin> set ''quit''"
  using assms
  by (simp add: Close_def setDeadline_def conn_SetDeadline_def conn_Write_def conn_Close_def
      written_def)

theorem Close_writes_quit_witness:
  "conn (client_on (healthy_conn [])) = Some (healthy_conn []) \<and>
   (\<exists>err c' cn'. Close (client_on (healthy_conn [])) = Returns (err, c') \<and>
      conn c' = Some cn' \<and> written cn' = written (healthy_conn []) @ [''quit''] \<and>
      length ''quit'' = 4 \<and> CHR 0x0A \<notin> set ''quit'')"
  using Close_writes_quit[of "client_on (healthy_conn [])" "healthy_conn []"]
  by (simp add: client_on_def)

section \<open>The reply\<close>

text \<open>
  C1 (amended).  Once the request is written and the deadline refreshes succeed, a
  status line made of a count \<open>N\<close> (decimal digits), whitespace and a trailing text
  gives: for \<open>N > 0\<close>, a slice of capacity \<open>N\<close> that can be allocated and at least \<open>N\<close>
  further lines in the stream, exactly the first \<open>N\<close> further lines, in order, without
  the trailing text of the status line; for \<open>N = 0\<close>, the trailing text as the only
  element.
\<close>

theorem ExecCmd_counted_reply:
  assumes "setDeadline c = Returns (None, c1)"
    and "write_loop (w, c1) (Cmd_String cmd) = Some (Returns (None, w2, c2))"
    and "conn c2 = Some cn" "deadline_res cn = (\<lambda>k. None)"
    and "pending (scanner c2) = (ds @ ws @ msg) # ls"
    and "ds \<noteq> []" "list_all isDigit ds" "ws \<noteq> []" "list_all isSpace ws"
    and "msg = [] \<or> \<not> isSpace (hd msg)" "CHR 0x0A \<notin> set msg"
    and "decimal ds < 2 ^ 63"
  shows "(0 < decimal ds \<and> nat (decimal ds) \<le> length ls \<and>
          16 * decimal ds \<le> 2 ^ 48 \<and>
          (16 * decimal ds \<le> 32768 \<or> 16 * decimal ds \<le> int (mem w2)) \<longrightarrow>
            result (ExecCmd (w, c) cmd) = Some (Inr (take (nat (decimal ds)) ls))) \<and>
         (decimal ds = 0 \<longrightarrow> result (ExecCmd (w, c) cmd) = Some (Inr [msg]))"
proof -
  have m: "respRe_FindStringSubmatch (ds @ ws @ msg) = [ds @ ws @ msg, ds, msg]"
    using respRe_header[of "[]" ds ws msg] assms(6-11) by simp
  have a: "Atoi ds = Inr (decimal ds)"
    using assms(6,7,12) by (rule Atoi_digits)
  have d0: "deadline_res cn (deadlines cn) = None"
    using assms(4) by simp
  have pos: "result (ExecCmd (w, c) cmd) = Some (Inr (take (nat (decimal ds)) ls))"
    if "0 < decimal ds" "nat (decimal ds) \<le> length ls" "16 * decimal ds \<le> 2 ^ 48"
      "16 * decimal ds \<le> 32768 \<or> 16 * decimal ds \<le> int (mem w2)"
  proof -
    have mk: "makeslice w2 (decimal ds) = Returns []"
      using that(1,3,4) by (intro makeslice_ok) simp_all
    show ?thesis
      using read_reply_positive[OF assms(3,4,5) m a that(1) mk] that(2)
      by (intro result_ExecCmd_sent[OF assms(1,2)]) simp
  qed
  have zero: "result (ExecCmd (w, c) cmd) = Some (Inr [msg])" if "decimal ds = 0"
    using read_reply_zero[OF assms(3) d0 assms(5) m, of w2] a that
    by (intro result_ExecCmd_sent[OF assms(1,2)]) simp
  from pos zero show ?thesis by blast
qed

theorem ExecCmd_counted_reply_witness:
  "result (ExecCmd (unreachable,
       client_on (healthy_conn (''2 Help follows'' @ CHR 0x0A # ''a'' @ CHR 0x0A # ''b'')))
     (NewCmd ''help'')) = Some (Inr [''a'', ''b''])"
proof -
  let ?cn = "healthy_conn (''2 Help follows'' @ CHR 0x0A # ''a'' @ CHR 0x0A # ''b'')"
  let ?c = "client_on ?cn"
  let ?b = "Cmd_String (NewCmd ''help'')"
  let ?cn2 = "snd (conn_Write (snd (conn_SetDeadline ?cn)) ?b)"
  have c: "conn ?c = Some ?cn"
    by (simp add: client_on_def)
  have d: "deadline_res ?cn (deadlines ?cn) = None" and wr: "write_res ?cn (writes ?cn) = None"
    by (simp_all add: healthy_conn_def)
  note sent = first_write_ok[OF c d wr]
  have c2: "conn (?c\<lparr>conn := Some ?cn2\<rparr>) = Some ?cn2"
    by simp
  have dl: "deadline_res ?cn2 = (\<lambda>k. None)"
    by (simp add: conn_Write_def conn_SetDeadline_def healthy_conn_def)
  have p: "pending (scanner (?c\<lparr>conn := Some ?cn2\<rparr>)) =
      (''2'' @ '' '' @ ''Help follows'') # [''a'', ''b'']"
    by (simp add: scanner_simps)
  have h: "''2'' \<noteq> []" "list_all isDigit ''2''" "'' '' \<noteq> []" "list_all isSpace '' ''"
    "''Help follows'' = [] \<or> \<not> isSpace (hd ''Help follows'')"
    "CHR 0x0A \<notin> set ''Help follows''" "decimal ''2'' < 2 ^ 63"
    by (simp_all add: isDigit_def isSpace_def decimal_def digit_val_def)
  have dec: "decimal ''2'' = 2"
    by (simp add: decimal_def digit_val_def)
  from ExecCmd_counted_reply[OF sent c2 dl p h, where w = unreachable] show ?thesis
    by (simp add: dec)
qed

text \<open>
  C1 as stated fails on the status line \<open>1 first\<close> followed by the line \<open>second\<close>:
  the result is the one line \<open>second\<close>; the trailing text \<open>first\<close> is not its first
  element.
\<close>

theorem header_text_counterexample:
  "result (ExecCmd (unreachable, client_on (healthy_conn (''1 first'' @ CHR 0x0A # ''second'')))
             (NewCmd ''help'')) = Some (Inr [''second'']) \<and>
   result (ExecCmd (unreachable, client_on (healthy_conn (''1 first'' @ CHR 0x0A # ''second'')))
             (NewCmd ''help'')) \<noteq> Some (Inr [''first'', ''second''])"
  by (simp add: eval_simps)

text \<open>
  C2 (amended).  Once the request is written, a status line with a positive count
  \<open>N\<close> followed by fewer than \<open>N\<close> further lines before the stream ends never makes
  \<^verbatim>\<open>ExecCmd\<close> return a list of lines.  When the slice of capacity \<open>N\<close> can be
  allocated, \<^verbatim>\<open>ExecCmd\<close> returns an error; when the deadline refreshes succeed as well,
  that error is the read error that ended the stream, as the scanner reports it and
  without a wrapper, when there is one, and \<^verbatim>\<open>io.ErrUnexpectedEOF\<close> when the stream
  ended cleanly.
\<close>

theorem ExecCmd_short_reply:
  assumes "setDeadline c = Returns (None, c1)"
    and "write_loop (w, c1) (Cmd_String cmd) = Some (Returns (None, w2, c2))"
    and "conn c2 = Some cn"
    and "pending (scanner c2) = (ds @ ws @ msg) # ls"
    and "ds \<noteq> []" "list_all isDigit ds" "ws \<noteq> []" "list_all isSpace ws"
    and "msg = [] \<or> \<not> isSpace (hd msg)" "CHR 0x0A \<notin> set msg"
    and "decimal ds < 2 ^ 63"
    and "length ls < nat (decimal ds)"
  shows "(\<forall>r. result (ExecCmd (w, c) cmd) \<noteq> Some (Inr r)) \<and>
         (16 * decimal ds \<le> 2 ^ 48 \<and>
          (16 * decimal ds \<le> 32768 \<or> 16 * decimal ds \<le> int (mem w2)) \<longrightarrow>
            (\<exists>e. result (ExecCmd (w, c) cmd) = Some (Inl e)) \<and>
            (deadline_res cn = (\<lambda>k. None) \<longrightarrow>
               result (ExecCmd (w, c) cmd) =
                 Some (Inl (case sticky (scanner c2) of
                              Some e \<Rightarrow> e
                            | None \<Rightarrow> ErrUnexpectedEOF))))"
proof -
  have m: "respRe_FindStringSubmatch (ds @ ws @ msg) = [ds @ ws @ msg, ds, msg]"
    using respRe_header[of "[]" ds ws msg] assms(5-10) by simp
  have a: "Atoi ds = Inr (decimal ds)"
    using assms(5,6,11) by (rule Atoi_digits)
  have short: "int (length ls) < decimal ds"
    using assms(12) by simp
  have pos: "0 < decimal ds"
    using short by simp
  note cases = read_reply_short[OF assms(3,4) m a short, of w2]
  have never: "result (ExecCmd (w, c) cmd) \<noteq> Some (Inr r)" for r
  proof -
    from cases consider e c3 where "read_reply w2 c2 = Returns (Inl e, c3)"
      | "read_reply w2 c2 = Panics" | "read_reply w2 c2 = Aborts"
      by blast
    then show ?thesis
    proof cases
      case 1
      then have "result (ExecCmd (w, c) cmd) = Some (Inl e)"
        by (intro result_ExecCmd_sent[OF assms(1,2)]) blast
      then show ?thesis by simp
    next
      case 2
      from ExecCmd_sent_stopped(1)[OF assms(1,2) this] show ?thesis
        by (simp add: result_def)
    next
      case 3
      from ExecCmd_sent_stopped(2)[OF assms(1,2) this] show ?thesis
        by (simp add: result_def)
    qed
  qed
  have alloc: "(\<exists>e. result (ExecCmd (w, c) cmd) = Some (Inl e)) \<and>
      (deadline_res cn = (\<lambda>k. None) \<longrightarrow>
         result (ExecCmd (w, c) cmd) =
           Some (Inl (case sticky (scanner c2) of Some e \<Rightarrow> e | None \<Rightarrow> ErrUnexpectedEOF)))"
    if "16 * decimal ds \<le> 2 ^ 48"
      "16 * decimal ds \<le> 32768 \<or> 16 * decimal ds \<le> int (mem w2)"
  proof -
    have mk: "makeslice w2 (decimal ds) = Returns []"
      using pos that by (intro makeslice_ok) simp_all
    with cases obtain e c3 where "read_reply w2 c2 = Returns (Inl e, c3)"
      by blast
    then have "result (ExecCmd (w, c) cmd) = Some (Inl e)"
      by (intro result_ExecCmd_sent[OF assms(1,2)]) blast
    then have any: "\<exists>e. result (ExecCmd (w, c) cmd) = Some (Inl e)" ..
    have "result (ExecCmd (w, c) cmd) =
        Some (Inl (case sticky (scanner c2) of Some e \<Rightarrow> e | None \<Rightarrow> ErrUnexpectedEOF))"
      if dl: "deadline_res cn = (\<lambda>k. None)"
      using read_reply_positive[OF assms(3) dl assms(4) m a pos mk] assms(12)
      by (intro result_ExecCmd_sent[OF assms(1,2)]) simp
    with any show ?thesis by blast
  qed
  from never alloc show ?thesis by blast
qed

theorem ExecCmd_short_reply_witness:
  "result (ExecCmd (unreachable,
       client_on (healthy_conn (''3 Lines follow'' @ CHR 0x0A # ''a'' @ CHR 0x0A # ''b'')))
     (NewCmd ''help'')) = Some (Inl ErrUnexpectedEOF)"
proof -
  let ?cn = "healthy_conn (''3 Lines follow'' @ CHR 0x0A # ''a'' @ CHR 0x0A # ''b'')"
  let ?c = "client_on ?cn"
  let ?b = "Cmd_String (NewCmd ''help'')"
  let ?cn2 = "snd (conn_Write (snd (conn_SetDeadline ?cn)) ?b)"
  have c: "conn ?c = Some ?cn"
    by (simp add: client_on_def)
  have d: "deadline_res ?cn (deadlines ?cn) = None" and wr: "write_res ?cn (writes ?cn) = None"
    by (simp_all add: healthy_conn_def)
  note sent = first_write_ok[OF c d wr]
  have c2: "conn (?c\<lparr>conn := Some ?cn2\<rparr>) = Some ?cn2"
    by simp
  have dl: "deadline_res ?cn2 = (\<lambda>k. None)"
    by (simp add: conn_Write_def conn_SetDeadline_def healthy_conn_def)
  have p: "pending (scanner (?c\<lparr>conn := Some ?cn2\<rparr>)) =
      (''3'' @ '' '' @ ''Lines follow'') # [''a'', ''b'']"
    by (simp add: scanner_simps)
  have st: "sticky (scanner (?c\<lparr>conn := Some ?cn2\<rparr>)) = None"
    by (simp add: scanner_simps)
  have h: "''3'' \<noteq> []" "list_all isDigit ''3''" "'' '' \<noteq> []" "list_all isSpace '' ''"
    "''Lines follow'' = [] \<or> \<not> isSpace (hd ''Lines follow'')"
    "CHR 0x0A \<notin> set ''Lines follow''" "decimal ''3'' < 2 ^ 63"
    "length [''a'', ''b''] < nat (decimal ''3'')"
    by (simp_all add: isDigit_def isSpace_def decimal_def digit_val_def)
  have dec: "decimal ''3'' = 3"
    by (simp add: decimal_def digit_val_def)
  from ExecCmd_short_reply[OF sent c2 p h, where w = unreachable] dl st show ?thesis
    by (simp add: dec)
qed

text \<open>
  C2 as stated fails on the status line \<open>3 Lines follow\<close> followed by the one line
  \<open>a\<close> and a read error: \<^verbatim>\<open>ExecCmd\<close> returns that read error itself, a value that
  wraps nothing, not a short-response error around it.
\<close>

theorem short_reply_error_counterexample:
  "result (ExecCmd (unreachable,
       client_on ((healthy_conn (''3 Lines follow'' @ CHR 0x0A # ''a'' @ [CHR 0x0A]))
         \<lparr>read_err := Some (ErrOther ''connection reset by peer'')\<rparr>))
     (NewCmd ''help'')) = Some (Inl (ErrOther ''connection reset by peer'')) \<and>
   Unwrap (ErrOther ''connection reset by peer'') = None"
  by (simp add: eval_simps)

text \<open>
  C3.  Once the request is written and the deadline refresh before the read succeeds,
  a status line made of a minus sign, digits of a value \<open>n > 0\<close> within the range of a
  64-bit integer, whitespace and a trailing text makes \<^verbatim>\<open>ExecCmd\<close> return the error
  \<open>NewError (- n) text\<close> and no lines.
\<close>

theorem ExecCmd_negative_status:
  assumes "setDeadline c = Returns (None, c1)"
    and "write_loop (w, c1) (Cmd_String cmd) = Some (Returns (None, w2, c2))"
    and "conn c2 = Some cn" "deadline_res cn (deadlines cn) = None"
    and "pending (scanner c2) = (''-'' @ ds @ ws @ msg) # ls"
    and "ds \<noteq> []" "list_all isDigit ds" "ws \<noteq> []" "list_all isSpace ws"
    and "msg = [] \<or> \<not> isSpace (hd msg)" "CHR 0x0A \<notin> set msg"
    and "0 < decimal ds" "decimal ds \<le> 2 ^ 63"
  shows "result (ExecCmd (w, c) cmd) = Some (Inl (NewError (- decimal ds) msg))"
proof -
  have m: "respRe_FindStringSubmatch (''-'' @ ds @ ws @ msg) =
      [''-'' @ ds @ ws @ msg, ''-'' @ ds, msg]"
    using assms(6-11) by (intro respRe_header) simp_all
  have a: "Atoi (''-'' @ ds) = Inr (- decimal ds)"
    using assms(6,7,13) by (rule Atoi_minus_digits)
  have neg: "- decimal ds < 0"
    using assms(12) by simp
  show ?thesis
    using read_reply_negative[OF assms(3,4,5) m a neg]
    by (intro result_ExecCmd_sent[OF assms(1,2)])
qed

theorem ExecCmd_negative_status_witness:
  "result (ExecCmd (unreachable, client_on (healthy_conn (''-1 No such file: /tmp/x.rrd'' @ [CHR 0x0A])))
     (NewCmd ''flush'')) = Some (Inl (NewError (- 1) ''No such file: /tmp/x.rrd''))"
proof -
  let ?cn = "healthy_conn (''-1 No such file: /tmp/x.rrd'' @ [CHR 0x0A])"
  let ?c = "client_on ?cn"
  let ?b = "Cmd_String (NewCmd ''flush'')"
  let ?cn2 = "snd (conn_Write (snd (conn_SetDeadline ?cn)) ?b)"
  have c: "conn ?c = Some ?cn"
    by (simp add: client_on_def)
  have d: "deadline_res ?cn (deadlines ?cn) = None" and wr: "write_res ?cn (writes ?cn) = None"
    by (simp_all add: healthy_conn_def)
  note sent = first_write_ok[OF c d wr]
  have c2: "conn (?c\<lparr>conn := Some ?cn2\<rparr>) = Some ?cn2"
    by simp
  have dl: "deadline_res ?cn2 (deadlines ?cn2) = None"
    by (simp add: conn_Write_def conn_SetDeadline_def healthy_conn_def)
  have p: "pending (scanner (?c\<lparr>conn := Some ?cn2\<rparr>)) =
      (''-'' @ ''1'' @ '' '' @ ''No such file: /tmp/x.rrd'') # []"
    by (simp add: scanner_simps)
  have h: "''1'' \<noteq> []" "list_all isDigit ''1''" "'' '' \<noteq> []" "list_all isSpace '' ''"
    "''No such file: /tmp/x.rrd'' = [] \<or> \<not> isSpace (hd ''No such file: /tmp/x.rrd'')"
    "CHR 0x0A \<notin> set ''No such file: /tmp/x.rrd''" "0 < decimal ''1''" "decimal ''1'' \<le> 2 ^ 63"
    by (simp_all add: isDigit_def isSpace_def decimal_def digit_val_def)
  from ExecCmd_negative_status[OF sent c2 dl p h, where w = unreachable] show ?thesis
    by (simp add: decimal_def digit_val_def)
qed

text \<open>
  C4.  Once the request is written and the deadline refresh before the read succeeds,
  a first line that does not have the shape of a status line makes \<^verbatim>\<open>ExecCmd\<close> return
  the error built from the format \<open>not 3 matches: '%s'\<close> and the line.  That error is
  not a protocol error (it is not built by \<^verbatim>\<open>NewError\<close>, so it holds no status code)
  and wraps none.
\<close>

theorem ExecCmd_malformed_status:
  assumes "setDeadline c = Returns (None, c1)"
    and "write_loop (w, c1) (Cmd_String cmd) = Some (Returns (None, w2, c2))"
    and "conn c2 = Some cn" "deadline_res cn (deadlines cn) = None"
    and "pending (scanner c2) = l # ls"
    and "\<not> status_shape l"
  shows "result (ExecCmd (w, c) cmd) =
           Some (Inl (Errorf (''not 3 matches: '%s'' @ [CHR 0x27]) [Str l])) \<and>
         \<not> is_protocol_error (Errorf (''not 3 matches: '%s'' @ [CHR 0x27]) [Str l]) \<and>
         Unwrap (Errorf (''not 3 matches: '%s'' @ [CHR 0x27]) [Str l]) = None"
proof -
  have m: "respRe_FindStringSubmatch l = []"
    using assms(6) respRe_match_shape by blast
  have "result (ExecCmd (w, c) cmd) =
      Some (Inl (Errorf (''not 3 matches: '%s'' @ [CHR 0x27]) [Str l]))"
    using read_reply_no_match[OF assms(3,4,5) m]
    by (intro result_ExecCmd_sent[OF assms(1,2)])
  then show ?thesis
    by simp
qed

theorem ExecCmd_malformed_status_witness:
  "result (ExecCmd (unreachable, client_on (healthy_conn (''garbage'' @ [CHR 0x0A])))
     (NewCmd ''help'')) = Some (Inl (Errorf (''not 3 matches: '%s'' @ [CHR 0x27]) [Str ''garbage'']))"
proof -
  let ?cn = "healthy_conn (''garbage'' @ [CHR 0x0A])"
  let ?c = "client_on ?cn"
  let ?b = "Cmd_String (NewCmd ''help'')"
  let ?cn2 = "snd (conn_Write (snd (conn_SetDeadline ?cn)) ?b)"
  have c: "conn ?c = Some ?cn"
    by (simp add: client_on_def)
  have d: "deadline_res ?cn (deadlines ?cn) = None" and wr: "write_res ?cn (writes ?cn) = None"
    by (simp_all add: healthy_conn_def)
  note sent = first_write_ok[OF c d wr]
  have c2: "conn (?c\<lparr>conn := Some ?cn2\<rparr>) = Some ?cn2"
    by simp
  have dl: "deadline_res ?cn2 (deadlines ?cn2) = None"
    by (simp add: conn_Write_def conn_SetDeadline_def healthy_conn_def)
  have p: "pending (scanner (?c\<lparr>conn := Some ?cn2\<rparr>)) = ''garbage'' # []"
    by (simp add: scanner_simps)
  have "respRe_FindStringSubmatch ''garbage'' = []"
    by (simp add: respRe_FindStringSubmatch_def isDigit_def)
  then have h: "\<not> status_shape ''garbage''"
    using status_shape_match[of "''garbage''"] by auto
  from ExecCmd_malformed_status[OF sent c2 dl p h, where w = unreachable] show ?thesis
    by simp
qed

section \<open>The info reply\<close>

text \<open>
  C5.  When \<^verbatim>\<open>Info\<close> returns its entries for the lines \<^verbatim>\<open>ExecCmd\<close> returned, the
  entry of a line made of a key without space, a space, a type tag, a space and a raw
  value is: for the tag \<open>2\<close>, the key with the raw value as a string, unchanged and
  whole, spaces included; for the tag \<open>1\<close>, the key with the raw value parsed by
  \<^verbatim>\<open>strconv.ParseInt\<close> as a decimal integer of 64 bits; for the tag \<open>0\<close>, the key with
  the raw value parsed by \<^verbatim>\<open>strconv.ParseFloat\<close>.
\<close>

theorem Info_value_dispatch:
  assumes "result (ExecCmd s (WithArgs (NewCmd ''info'') [filename])) = Some (Inr lines)"
    and "result (Info pf s filename) = Some (Inr data)"
    and "i < length lines"
    and "lines ! i = key @ '' '' @ tag @ '' '' @ raw" "CHR '' '' \<notin> set key"
  shows "(tag = ''2'' \<longrightarrow> data ! i = \<lparr>Key = key, Value = VString raw\<rparr>) \<and>
         (tag = ''1'' \<longrightarrow>
            (\<exists>v. ParseInt raw = Inr v \<and> - (2 ^ 63) \<le> v \<and> v < 2 ^ 63 \<and>
                 data ! i = \<lparr>Key = key, Value = VInt64 v\<rparr>)) \<and>
         (tag = ''0'' \<longrightarrow>
            (\<exists>f. pf raw = Inr f \<and> data ! i = \<lparr>Key = key, Value = VFloat64 f\<rparr>))"
proof -
  have loop: "Info_loop pf lines = Inr data"
    using Info_result_Inr[OF assms(1), of pf] assms(2) by simp
  have line: "Info_line pf (key @ '' '' @ tag @ '' '' @ raw) = Inr (data ! i)"
    using Info_loop_Inr[OF loop] assms(3,4) by auto
  have two: "data ! i = \<lparr>Key = key, Value = VString raw\<rparr>" if "tag = ''2''"
  proof -
    have "CHR '' '' \<notin> set tag"
      using that by simp
    from line[unfolded Info_line_fields[OF assms(5) this]] that show ?thesis
      by simp
  qed
  have one: "\<exists>v. ParseInt raw = Inr v \<and> - (2 ^ 63) \<le> v \<and> v < 2 ^ 63 \<and>
      data ! i = \<lparr>Key = key, Value = VInt64 v\<rparr>" if "tag = ''1''"
  proof -
    have "CHR '' '' \<notin> set tag"
      using that by simp
    from line[unfolded Info_line_fields[OF assms(5) this]] that
    obtain v where "ParseInt raw = Inr v" "data ! i = \<lparr>Key = key, Value = VInt64 v\<rparr>"
      by (auto split: sum.splits)
    with ParseInt_range[of raw v] show ?thesis by blast
  qed
  have zero: "\<exists>f. pf raw = Inr f \<and> data ! i = \<lparr>Key = key, Value = VFloat64 f\<rparr>" if "tag = ''0''"
  proof -
    have "CHR '' '' \<notin> set tag"
      using that by simp
    from line[unfolded Info_line_fields[OF assms(5) this]] that show ?thesis
      by (auto split: sum.splits)
  qed
  from two one zero show ?thesis by blast
qed

theorem Info_value_dispatch_witness:
  "result (Info example_ParseFloat
     (unreachable,
      client_on (healthy_conn (''3 Info follows'' @ CHR 0x0A # ''k 1 -42'' @ CHR 0x0A #
         ''k 0 3.5'' @ CHR 0x0A # ''k 2 rrd file'' @ [CHR 0x0A])))
     ''/tmp/x.rrd'') =
   Some (Inr [\<lparr>Key = ''k'', Value = VInt64 (- 42)\<rparr>, \<lparr>Key = ''k'', Value = VFloat64 3.5\<rparr>,
              \<lparr>Key = ''k'', Value = VString ''rrd file''\<rparr>]) \<and>
   [\<lparr>Key = ''k'', Value = VInt64 (- 42)\<rparr>, \<lparr>Key = ''k'', Value = VFloat64 (3.5::real)\<rparr>,
    \<lparr>Key = ''k'', Value = VString ''rrd file''\<rparr>] ! 2 = \<lparr>Key = ''k'', Value = VString ''rrd file''\<rparr> \<and>
   ParseInt ''-42'' = Inr (- 42) \<and> example_ParseFloat ''3.5'' = Inr 3.5"
proof -
  let ?s = "(unreachable,
      client_on (healthy_conn (''3 Info follows'' @ CHR 0x0A # ''k 1 -42'' @ CHR 0x0A #
         ''k 0 3.5'' @ CHR 0x0A # ''k 2 rrd file'' @ [CHR 0x0A])))"
  let ?lines = "[''k 1 -42'', ''k 0 3.5'', ''k 2 rrd file'']"
  let ?data = "[\<lparr>Key = ''k'', Value = VInt64 (- 42)\<rparr>, \<lparr>Key = ''k'', Value = VFloat64 (3.5::real)\<rparr>,
          \<lparr>Key = ''k'', Value = VString ''rrd file''\<rparr>]"
  have e: "result (ExecCmd ?s (WithArgs (NewCmd ''info'') [''/tmp/x.rrd''])) = Some (Inr ?lines)"
    by (simp add: eval_simps)
  have l: "Info_loop example_ParseFloat ?lines = Inr ?data"
    by (simp add: info_simps)
  have r: "result (Info example_ParseFloat ?s ''/tmp/x.rrd'') = Some (Inr ?data)"
    using Info_result_Inr[OF e, of example_ParseFloat] l by simp
  have i: "2 < length ?lines" and k: "CHR '' '' \<notin> set ''k''"
    and f: "?lines ! 2 = ''k'' @ '' '' @ ''2'' @ '' '' @ ''rrd file''"
    by simp_all
  have p: "ParseInt ''-42'' = Inr (- 42)" "example_ParseFloat ''3.5'' = Inr 3.5"
    by (simp_all add: info_simps)
  from Info_value_dispatch[OF e r i f k] r p show ?thesis
    by simp
qed

text \<open>
  C6.  For a line of an info reply: with fewer than two spaces (fewer than three
  fields) its decoding fails with the error built from the format
  \<open>unexpected response: not 3 parts '%s'\<close> and the line; with three fields and a tag
  other than \<open>2\<close>, \<open>1\<close>, \<open>0\<close> it fails with an invalid-response error whose text names
  the tag and the key; with the tag \<open>1\<close> or \<open>0\<close> and a raw value that does not parse it
  fails with an invalid-response error whose text names the key.  Whenever a line of
  the reply fails, the loop returns an error and no entries, and so does \<^verbatim>\<open>Info\<close>.
\<close>

theorem Info_bad_line:
  assumes "line \<in> set lines"
  shows "(length (filter (\<lambda>c. c = CHR '' '') line) < 2 \<longrightarrow>
            Info_line pf line =
              Inl (Errorf (''unexpected response: not 3 parts '%s'' @ [CHR 0x27]) [Str line])) \<and>
         (line = key @ '' '' @ tag @ '' '' @ raw \<and> CHR '' '' \<notin> set key \<and> CHR '' '' \<notin> set tag \<longrightarrow>
            (tag \<noteq> ''2'' \<and> tag \<noteq> ''1'' \<and> tag \<noteq> ''0'' \<longrightarrow>
               Info_line pf line =
                 Inl (NewInvalidResponseError
                        (''info: unknown type '' @ tag @ '' for key '' @ key) line)) \<and>
            (tag = ''1'' \<and> (\<exists>e. ParseInt raw = Inl e) \<longrightarrow>
               Info_line pf line =
                 Inl (NewInvalidResponseError (''info: invalid int for key '' @ key) line)) \<and>
            (tag = ''0'' \<and> (\<exists>e. pf raw = Inl e) \<longrightarrow>
               Info_line pf line =
                 Inl (NewInvalidResponseError (''info: invalid float for key '' @ key) line))) \<and>
         ((\<exists>e. Info_line pf line = Inl e) \<longrightarrow>
            (\<exists>e. Info_loop pf lines = Inl e) \<and>
            (\<forall>s. result (ExecCmd s (WithArgs (NewCmd ''info'') [filename])) = Some (Inr lines) \<longrightarrow>
               (\<exists>e. result (Info pf s filename) = Some (Inl e))))"
proof -
  have few: "Info_line pf line =
      Inl (Errorf (''unexpected response: not 3 parts '%s'' @ [CHR 0x27]) [Str line])"
    if "length (filter (\<lambda>c. c = CHR '' '') line) < 2"
  proof -
    have "length (SplitN line (CHR '' '') 3) \<noteq> 3"
      using that by (simp add: SplitN_3_length)
    then show ?thesis
      by (simp add: Info_line_def Let_def)
  qed
  have fields: "(tag \<noteq> ''2'' \<and> tag \<noteq> ''1'' \<and> tag \<noteq> ''0'' \<longrightarrow>
               Info_line pf line =
                 Inl (NewInvalidResponseError
                        (''info: unknown type '' @ tag @ '' for key '' @ key) line)) \<and>
            (tag = ''1'' \<and> (\<exists>e. ParseInt raw = Inl e) \<longrightarrow>
               Info_line pf line =
                 Inl (NewInvalidResponseError (''info: invalid int for key '' @ key) line)) \<and>
            (tag = ''0'' \<and> (\<exists>e. pf raw = Inl e) \<longrightarrow>
               Info_line pf line =
                 Inl (NewInvalidResponseError (''info: invalid float for key '' @ key) line))"
    if l: "line = key @ '' '' @ tag @ '' '' @ raw" and "CHR '' '' \<notin> set key" "CHR '' '' \<notin> set tag"
    unfolding l Info_line_fields[OF that(2,3)] by auto
  have loop: "(\<exists>e. Info_loop pf lines = Inl e) \<and>
      (\<forall>s. result (ExecCmd s (WithArgs (NewCmd ''info'') [filename])) = Some (Inr lines) \<longrightarrow>
         (\<exists>e. result (Info pf s filename) = Some (Inl e)))"
    if "\<exists>e. Info_line pf line = Inl e"
  proof -
    from that obtain e where "Info_line pf line = Inl e" ..
    from Info_loop_Inl[OF assms this] obtain e' where "Info_loop pf lines = Inl e'" ..
    then show ?thesis
      using Info_result_Inr[of _ filename lines pf] by auto
  qed
  from few fields loop show ?thesis
    by blast
qed

theorem Info_bad_line_witness:
  "''k 9 v'' \<in> set [''a 2 x'', ''k 9 v''] \<and>
   Info_line example_ParseFloat ''k 9 v'' =
     Inl (NewInvalidResponseError ''info: unknown type 9 for key k'' ''k 9 v'') \<and>
   (\<exists>e. result (Info example_ParseFloat
           (unreachable, client_on (healthy_conn (''2 Info follows'' @ CHR 0x0A # ''a 2 x'' @
              CHR 0x0A # ''k 9 v'' @ [CHR 0x0A])))
           ''/tmp/x.rrd'') = Some (Inl e))"
proof -
  let ?s = "(unreachable, client_on (healthy_conn (''2 Info follows'' @ CHR 0x0A # ''a 2 x'' @
              CHR 0x0A # ''k 9 v'' @ [CHR 0x0A])))"
  have m: "''k 9 v'' \<in> set [''a 2 x'', ''k 9 v'']"
    by simp
  have l: "''k 9 v'' = ''k'' @ '' '' @ ''9'' @ '' '' @ ''v'' \<and> CHR '' '' \<notin> set ''k'' \<and>
      CHR '' '' \<notin> set ''9''"
    by simp
  have ne: "''9'' \<noteq> ''2'' \<and> ''9'' \<noteq> ''1'' \<and> ''9'' \<noteq> ''0''"
    by simp
  have e: "result (ExecCmd ?s (WithArgs (NewCmd ''info'') [''/tmp/x.rrd''])) =
      Some (Inr [''a 2 x'', ''k 9 v''])"
    by (simp add: eval_simps)
  note t = Info_bad_line[OF m, where key = "''k''" and tag = "''9''" and raw = "''v''"
      and pf = example_ParseFloat and filename = "''/tmp/x.rrd''"]
  from t l ne have u: "Info_line example_ParseFloat ''k 9 v'' =
      Inl (NewInvalidResponseError (''info: unknown type '' @ ''9'' @ '' for key '' @ ''k'') ''k 9 v'')"
    by blast
  with t e have "\<exists>e. result (Info example_ParseFloat ?s ''/tmp/x.rrd'') = Some (Inl e)"
    by blast
  with m u show ?thesis
    by simp
qed

text \<open>
  C7 (amended).  For the info request on \<open>/tmp/x.rrd\<close>, once the request is written and
  the deadline refreshes succeed: a status line with the count \<open>2\<close>, followed by the
  two lines \<open>ds[temp].type 2 GAUGE\<close> and \<open>ds[temp].index 1 0\<close>, decodes to exactly two
  entries, the key \<open>ds[temp].type\<close> with the string \<open>GAUGE\<close> and the key
  \<open>ds[temp].index\<close> with the integer \<open>0\<close>.
\<close>

theorem Info_scenario:
  assumes "setDeadline c = Returns (None, c1)"
    and "write_loop (w, c1) (Cmd_String (WithArgs (NewCmd ''info'') [''/tmp/x.rrd''])) =
           Some (Returns (None, w2, c2))"
    and "conn c2 = Some cn" "deadline_res cn = (\<lambda>k. None)"
    and "pending (scanner c2) =
           (''2'' @ ws @ msg) # ''ds[temp].type 2 GAUGE'' # ''ds[temp].index 1 0'' # rest"
    and "ws \<noteq> []" "list_all isSpace ws"
    and "msg = [] \<or> \<not> isSpace (hd msg)" "CHR 0x0A \<notin> set msg"
  shows "result (Info pf (w, c) ''/tmp/x.rrd'') =
           Some (Inr [\<lparr>Key = ''ds[temp].type'', Value = VString ''GAUGE''\<rparr>,
                      \<lparr>Key = ''ds[temp].index'', Value = VInt64 0\<rparr>])"
proof -
  let ?cmd = "WithArgs (NewCmd ''info'') [''/tmp/x.rrd'']"
  let ?ls = "''ds[temp].type 2 GAUGE'' # ''ds[temp].index 1 0'' # rest"
  have m: "respRe_FindStringSubmatch (''2'' @ ws @ msg) = [''2'' @ ws @ msg, ''2'', msg]"
    using respRe_header[of "[]" "''2''" ws msg] assms(6-9) by (simp add: isDigit_def)
  have a: "Atoi ''2'' = Inr 2"
    by (simp add: Atoi_def parse_int64_def isDigit_def decimal_def digit_val_def)
  have mk: "makeslice w2 2 = Returns []"
    by (intro makeslice_ok) simp_all
  obtain c3 where "read_reply w2 c2 =
      Returns (Inr [''ds[temp].type 2 GAUGE'', ''ds[temp].index 1 0''], c3)"
    using read_reply_positive[OF assms(3,4,5) m a _ mk] by auto
  then have "ExecCmd (w, c) ?cmd =
      Some (Returns (Inr [''ds[temp].type 2 GAUGE'', ''ds[temp].index 1 0''], w2, c3))"
    by (rule ExecCmd_sent[OF assms(1,2)])
  then have "result (Info pf (w, c) ''/tmp/x.rrd'') =
      Some (Info_loop pf [''ds[temp].type 2 GAUGE'', ''ds[temp].index 1 0''])"
    by (simp add: Info_def result_def)
  then show ?thesis
    by (simp add: Info_line_def numeral_3_eq_3 Let_def ParseInt_def parse_int64_def
        isDigit_def decimal_def digit_val_def)
qed

theorem Info_scenario_witness:
  "result (Info example_ParseFloat
     (unreachable,
      client_on (healthy_conn (''2 Info for /tmp/x.rrd follows'' @ CHR 0x0A #
         ''ds[temp].type 2 GAUGE'' @ CHR 0x0A # ''ds[temp].index 1 0'' @ [CHR 0x0A])))
     ''/tmp/x.rrd'') =
   Some (Inr [\<lparr>Key = ''ds[temp].type'', Value = VString ''GAUGE''\<rparr>,
              \<lparr>Key = ''ds[temp].index'', Value = VInt64 0\<rparr>])"
proof -
  let ?cn = "healthy_conn (''2 Info for /tmp/x.rrd follows'' @ CHR 0x0A #
         ''ds[temp].type 2 GAUGE'' @ CHR 0x0A # ''ds[temp].index 1 0'' @ [CHR 0x0A])"
  let ?c = "client_on ?cn"
  let ?b = "Cmd_String (WithArgs (NewCmd ''info'') [''/tmp/x.rrd''])"
  let ?cn2 = "snd (conn_Write (snd (conn_SetDeadline ?cn)) ?b)"
  have c: "conn ?c = Some ?cn"
    by (simp add: client_on_def)
  have d: "deadline_res ?cn (deadlines ?cn) = None" and wr: "write_res ?cn (writes ?cn) = None"
    by (simp_all add: healthy_conn_def)
  note sent = first_write_ok[OF c d wr]
  have c2: "conn (?c\<lparr>conn := Some ?cn2\<rparr>) = Some ?cn2"
    by simp
  have dl: "deadline_res ?cn2 = (\<lambda>k. None)"
    by (simp add: conn_Write_def conn_SetDeadline_def healthy_conn_def)
  have p: "pending (scanner (?c\<lparr>conn := Some ?cn2\<rparr>)) =
      (''2'' @ '' '' @ ''Info for /tmp/x.rrd follows'') #
        ''ds[temp].type 2 GAUGE'' # ''ds[temp].index 1 0'' # []"
    by (simp add: scanner_simps)
  have h: "'' '' \<noteq> []" "list_all isSpace '' ''"
    "''Info for /tmp/x.rrd follows'' = [] \<or> \<not> isSpace (hd ''Info for /tmp/x.rrd follows'')"
    "CHR 0x0A \<notin> set ''Info for /tmp/x.rrd follows''"
    by (simp_all add: isSpace_def)
  from Info_scenario[OF sent c2 dl p h, where w = unreachable and pf = example_ParseFloat]
  show ?thesis .
qed

text \<open>
  C7 as stated fails.  Its reply is \<open>2 ds[temp].type 2 GAUGE\<close>, a newline,
  \<open>ds[temp].index 1 0\<close>: the first line is the status line and announces two lines,
  one follows, and \<^verbatim>\<open>Info\<close> returns the short-reply error instead of two entries.
\<close>

theorem Info_scenario_counterexample:
  "result (Info example_ParseFloat
     (unreachable,
      client_on (healthy_conn (''2 ds[temp].type 2 GAUGE'' @ CHR 0x0A # ''ds[temp].index 1 0'')))
     ''/tmp/x.rrd'') =
   Some (Inl (Errorf ''failed to get info for '%s': %w''
                [Str ''/tmp/x.rrd'', Wrapped ErrUnexpectedEOF]))"
  by (simp add: Info_def eval_simps)

section \<open>Write failures\<close>

text \<open>
  C8.  In \<^verbatim>\<open>ExecCmd\<close>, after the first deadline refresh, when the write fails with
  \<open>err\<close>: if \<open>err\<close> is neither a broken pipe nor a connection reset, \<^verbatim>\<open>ExecCmd\<close>
  returns the error wrapping \<open>err\<close> at once, without dialling and without a second
  write; if it is one of the two, the client dials, and a failed dial makes
  \<^verbatim>\<open>ExecCmd\<close> return one error that holds the text of \<open>err\<close> and wraps the dial
  error, while a successful dial makes the loop go round again on the new connection;
  when every further dial succeeds and every first write on the new connections fails
  in the same way, \<^verbatim>\<open>ExecCmd\<close> never returns.
\<close>

theorem ExecCmd_write_failure:
  assumes "conn c = Some cn" "deadline_res cn (deadlines cn) = None"
    and "write_res cn (writes cn) = Some err"
  shows "(\<not> errors_Is err EPIPE \<and> \<not> errors_Is err ECONNRESET \<longrightarrow>
            ExecCmd (w, c) cmd =
              Some (Returns (Inl (Errorf ''failed to write: %w'' [Wrapped err]), w,
                c\<lparr>conn := Some (snd (conn_Write (snd (conn_SetDeadline cn)) (Cmd_String cmd)))\<rparr>))) \<and>
         (errors_Is err EPIPE \<or> errors_Is err ECONNRESET \<longrightarrow>
            (\<forall>derr. dial_res w (network c) (addr c) (dials w) = Inl derr \<longrightarrow>
               ExecCmd (w, c) cmd =
                 Some (Returns
                   (Inl (Errorf ''failed to write (%s) and failed to reestablish: %w''
                           [ErrorText err, Wrapped (Errorf ''failed to dial: %w'' [Wrapped derr])]),
                    w\<lparr>dials := Suc (dials w)\<rparr>, c\<lparr>conn := None\<rparr>))) \<and>
            (\<forall>cn2. dial_res w (network c) (addr c) (dials w) = Inr cn2 \<longrightarrow>
               write_loop (w, c\<lparr>conn := Some (snd (conn_SetDeadline cn))\<rparr>) (Cmd_String cmd) =
                 write_loop (w\<lparr>dials := Suc (dials w)\<rparr>,
                             c\<lparr>conn := Some cn2, scanner := NewScanner cn2\<rparr>) (Cmd_String cmd)) \<and>
            ((\<forall>k\<ge>dials w. \<exists>cn2 e. dial_res w (network c) (addr c) k = Inr cn2 \<and>
                 write_res cn2 (writes cn2) = Some e \<and>
                 (errors_Is e EPIPE \<or> errors_Is e ECONNRESET)) \<longrightarrow>
               ExecCmd (w, c) cmd = None))"
proof -
  let ?cn1 = "snd (conn_SetDeadline cn)"
  let ?c1 = "c\<lparr>conn := Some ?cn1\<rparr>"
  let ?b = "Cmd_String cmd"
  have d: "setDeadline c = Returns (None, ?c1)"
    using assms(1,2) by (simp add: setDeadline_def conn_SetDeadline_def)
  have c1: "conn ?c1 = Some ?cn1"
    by simp
  have w1: "write_res ?cn1 (writes ?cn1) = Some err"
    using assms(3) by (simp add: conn_SetDeadline_def)
  have other: "ExecCmd (w, c) cmd =
      Some (Returns (Inl (Errorf ''failed to write: %w'' [Wrapped err]), w,
        c\<lparr>conn := Some (snd (conn_Write ?cn1 ?b))\<rparr>))"
    if "\<not> errors_Is err EPIPE \<and> \<not> errors_Is err ECONNRESET"
    using write_loop_other[OF c1 w1, of w ?b] that by (simp add: ExecCmd_def d)
  have failed: "ExecCmd (w, c) cmd =
      Some (Returns
        (Inl (Errorf ''failed to write (%s) and failed to reestablish: %w''
                [ErrorText err, Wrapped (Errorf ''failed to dial: %w'' [Wrapped derr])]),
         w\<lparr>dials := Suc (dials w)\<rparr>, c\<lparr>conn := None\<rparr>))"
    if "errors_Is err EPIPE \<or> errors_Is err ECONNRESET"
      "dial_res w (network c) (addr c) (dials w) = Inl derr" for derr
    using write_loop_redial_failed[OF c1 w1 that(1), of w derr ?b] that(2)
    by (simp add: ExecCmd_def d)
  have retry: "write_loop (w, ?c1) ?b =
      write_loop (w\<lparr>dials := Suc (dials w)\<rparr>, c\<lparr>conn := Some cn2, scanner := NewScanner cn2\<rparr>) ?b"
    if "errors_Is err EPIPE \<or> errors_Is err ECONNRESET"
      "dial_res w (network c) (addr c) (dials w) = Inr cn2" for cn2
    using write_loop_retry[OF c1 w1 that(1), of w cn2 ?b] that(2) by simp
  have never: "ExecCmd (w, c) cmd = None"
    if rt: "errors_Is err EPIPE \<or> errors_Is err ECONNRESET"
      and all: "\<forall>k\<ge>dials w. \<exists>cn2 e. dial_res w (network c) (addr c) k = Inr cn2 \<and>
        write_res cn2 (writes cn2) = Some e \<and> (errors_Is e EPIPE \<or> errors_Is e ECONNRESET)"
  proof -
    have all1: "\<forall>k\<ge>dials w. \<exists>cn2 e. dial_res w (network ?c1) (addr ?c1) k = Inr cn2 \<and>
        write_res cn2 (writes cn2) = Some e \<and> (errors_Is e EPIPE \<or> errors_Is e ECONNRESET)"
      using all by simp
    have "write_loop (w, ?c1) ?b = None"
    proof (cases "write_loop (w, ?c1) ?b")
      case (Some y)
      from write_loop_never_ends_aux[OF Some] c1 w1 rt all1 have False
        by blast
      then show ?thesis ..
    qed
    then show ?thesis
      by (simp add: ExecCmd_def d)
  qed
  from other failed retry never show ?thesis
    by blast
qed

theorem ExecCmd_write_failure_witness:
  "result (ExecCmd (unreachable, client_on broken_conn) (NewCmd ''help'')) =
     Some (Inl (Errorf ''failed to write (%s) and failed to reestablish: %w''
                  [ErrorText (OpError ''write'' EPIPE),
                   Wrapped (Errorf ''failed to dial: %w'' [Wrapped (ErrOther ''connection refused'')])]))"
proof -
  have c: "conn (client_on broken_conn) = Some broken_conn"
    by (simp add: client_on_def)
  have d: "deadline_res broken_conn (deadlines broken_conn) = None"
    and wr: "write_res broken_conn (writes broken_conn) = Some (OpError ''write'' EPIPE)"
    by (simp_all add: broken_conn_def healthy_conn_def)
  have rt: "errors_Is (OpError ''write'' EPIPE) EPIPE \<or> errors_Is (OpError ''write'' EPIPE) ECONNRESET"
    by (simp add: errors_Is.simps)
  have dial: "dial_res unreachable (network (client_on broken_conn)) (addr (client_on broken_conn))
      (dials unreachable) = Inl (ErrOther ''connection refused'')"
    by (simp add: unreachable_def)
  from ExecCmd_write_failure[OF c d wr, of unreachable "NewCmd ''help''"] rt dial show ?thesis
    by (simp add: result_def)
qed

end
